theory Spec2Isabelle
  imports Complex_Main
begin

section \<open>Strings\<close>

text \<open>
  JavaScript strings are sequences of UTF-16 code units. They are modelled as
  \<^typ>\<open>string\<close>, one \<^typ>\<open>char\<close> per code unit, which is exact for text in the
  Latin-1 range (the markers, the colour codes and the markup the extension itself
  writes are ASCII). Only the string methods the content scripts call are modelled.
\<close>

definition isWhitespace :: "char \<Rightarrow> bool" where
  \<comment> \<open>the white space and line terminators of \<open>String.prototype.trim\<close> below U+0100\<close>
  "isWhitespace c =
     (c = CHR 0x09 \<or> c = CHR 0x0A \<or> c = CHR 0x0B \<or> c = CHR 0x0C \<or> c = CHR 0x0D \<or>
      c = CHR 0x20 \<or> c = CHR 0xA0)"

definition trim :: "string \<Rightarrow> string" where
  "trim s = rev (dropWhile isWhitespace (rev (dropWhile isWhitespace s)))"

fun startsWith :: "string \<Rightarrow> string \<Rightarrow> bool" where
  \<comment> \<open>\<open>startsWith pat s\<close>: \<open>s\<close> begins with \<open>pat\<close>\<close>
  "startsWith [] s = True"
| "startsWith (p # ps) [] = False"
| "startsWith (p # ps) (c # cs) = (p = c \<and> startsWith ps cs)"

fun includesStr :: "string \<Rightarrow> string \<Rightarrow> bool" where
  \<comment> \<open>\<open>s.includes(pat)\<close>\<close>
  "includesStr [] pat = (pat = [])"
| "includesStr (c # cs) pat = (startsWith pat (c # cs) \<or> includesStr cs pat)"

fun indexOf :: "string \<Rightarrow> string \<Rightarrow> int" where
  \<comment> \<open>\<open>s.indexOf(pat)\<close>, \<open>-1\<close> when \<open>pat\<close> does not occur\<close>
  "indexOf [] pat = (if pat = [] then 0 else - 1)"
| "indexOf (c # cs) pat =
     (if startsWith pat (c # cs) then 0
      else (let i = indexOf cs pat in if i < 0 then - 1 else i + 1))"

definition substring :: "string \<Rightarrow> int \<Rightarrow> int \<Rightarrow> string" where
  \<comment> \<open>\<open>s.substring(a, b)\<close>: both ends clamped to the string, swapped when \<open>a > b\<close>\<close>
  "substring s a b =
     (let n = int (length s);
          a' = max 0 (min a n);
          b' = max 0 (min b n);
          lo = min a' b';
          hi = max a' b'
      in take (nat (hi - lo)) (drop (nat lo) s))"

definition substr :: "string \<Rightarrow> nat \<Rightarrow> nat \<Rightarrow> string" where
  \<comment> \<open>\<open>s.substr(start, len)\<close> for the non-negative arguments the source passes\<close>
  "substr s start len = take len (drop start s)"

fun replace_first :: "string \<Rightarrow> string \<Rightarrow> string \<Rightarrow> string" where
  \<comment> \<open>\<open>s.replace(pat, rep)\<close> with a string pattern: the first occurrence only\<close>
  "replace_first [] pat rep = (if pat = [] then rep else [])"
| "replace_first (c # cs) pat rep =
     (if startsWith pat (c # cs) then rep @ drop (length pat) (c # cs)
      else c # replace_first cs pat rep)"

fun replace_from :: "string \<Rightarrow> string \<Rightarrow> nat \<Rightarrow> string \<Rightarrow> string" where
  \<comment> \<open>the scan of a global replacement; the counter is the number of code units of a
      match that are still to be skipped\<close>
  "replace_from pat rep k [] = []"
| "replace_from pat rep (Suc k) (c # cs) = replace_from pat rep k cs"
| "replace_from pat rep 0 (c # cs) =
     (if pat \<noteq> [] \<and> startsWith pat (c # cs)
      then rep @ replace_from pat rep (length pat - 1) cs
      else c # replace_from pat rep 0 cs)"

definition replace_all :: "string \<Rightarrow> string \<Rightarrow> string \<Rightarrow> string" where
  \<comment> \<open>\<open>s.replace(/pat/g, rep)\<close> for a literal, non-empty pattern\<close>
  "replace_all s pat rep = replace_from pat rep 0 s"

function show_nat :: "nat \<Rightarrow> string" where
  \<comment> \<open>a non-negative integer converted to a string, as in \<open>n + 'px'\<close>\<close>
  "show_nat n =
     (if n < 10 then [char_of (48 + n)]
      else show_nat (n div 10) @ [char_of (48 + n mod 10)])"
  by pat_completeness auto
termination
  by (relation "measure id") auto

declare show_nat.simps [simp del]

definition hexDigit :: "char \<Rightarrow> nat option" where
  "hexDigit c =
     (let n = (of_char c :: nat) in
      if 48 \<le> n \<and> n \<le> 57 then Some (n - 48)
      else if 97 \<le> n \<and> n \<le> 102 then Some (n - 87)
      else if 65 \<le> n \<and> n \<le> 70 then Some (n - 55)
      else None)"

definition parseInt16 :: "string \<Rightarrow> int option" where
  \<comment> \<open>\<open>parseInt(s, 16)\<close>: leading white space, a sign and a \<open>0x\<close> prefix are skipped, the
      longest run of hexadecimal digits is read, and \<open>None\<close> is \<open>NaN\<close>\<close>
  "parseInt16 s =
     (let s1 = dropWhile isWhitespace s;
          neg = startsWith ''-'' s1;
          s2 = (if startsWith ''-'' s1 \<or> startsWith ''+'' s1 then drop 1 s1 else s1);
          s3 = (if startsWith ''0x'' s2 \<or> startsWith ''0X'' s2 then drop 2 s2 else s2);
          ds = takeWhile (\<lambda>c. hexDigit c \<noteq> None) s3;
          v = foldl (\<lambda>acc c. case hexDigit c of Some d \<Rightarrow> 16 * acc + d | None \<Rightarrow> acc) 0 ds
      in if ds = [] then None else Some (if neg then - int v else int v))"

section \<open>The page\<close>

text \<open>
  The host page is a tree of text nodes and elements. An element has an identity (its
  number: two elements with the same markup are still two elements), a local name, its
  attributes in source order and its child nodes. A value of type \<open>element\<close> is the
  handle the scripts hold.
\<close>

datatype node = Text string | Elem element
  and element =
    Element (nid: nat) (tagName: string) (attrs: "(string \<times> string) list")
      (childNodes: "node list")

fun textContent :: "element \<Rightarrow> string"
  and textContent_nodes :: "node list \<Rightarrow> string" where
  "textContent (Element i t a ks) = textContent_nodes ks"
| "textContent_nodes [] = []"
| "textContent_nodes (Text s # ks) = s @ textContent_nodes ks"
| "textContent_nodes (Elem e # ks) = textContent e @ textContent_nodes ks"

definition escapeText :: "string \<Rightarrow> string" where
  "escapeText s =
     concat (map (\<lambda>c. if c = CHR ''&'' then ''&amp;'' else if c = CHR ''<'' then ''&lt;''
                       else if c = CHR ''>'' then ''&gt;'' else if c = CHR 0xA0 then ''&nbsp;''
                       else [c]) s)"

definition escapeAttr :: "string \<Rightarrow> string" where
  "escapeAttr s =
     concat (map (\<lambda>c. if c = CHR ''&'' then ''&amp;'' else if c = CHR 0x22 then ''&quot;''
                       else if c = CHR 0xA0 then ''&nbsp;'' else [c]) s)"

definition voidElements :: "string list" where
  "voidElements = [''area'', ''base'', ''br'', ''col'', ''embed'', ''hr'', ''img'', ''input'',
                   ''link'', ''meta'', ''source'', ''track'', ''wbr'']"

definition rawTextElements :: "string list" where
  "rawTextElements = [''style'', ''script'', ''xmp'', ''iframe'', ''noembed'', ''noframes'',
                      ''plaintext'']"

definition serializeAttrs :: "(string \<times> string) list \<Rightarrow> string" where
  "serializeAttrs as = concat (map (\<lambda>(k, v). '' '' @ k @ ''='' @ [CHR 0x22] @ escapeAttr v @ [CHR 0x22]) as)"

fun outerHTML :: "element \<Rightarrow> string"
  and serializeNodes :: "bool \<Rightarrow> node list \<Rightarrow> string" where
  "outerHTML (Element i t a ks) =
     ''<'' @ t @ serializeAttrs a @ ''>'' @
     (if List.member voidElements t then []
      else serializeNodes (List.member rawTextElements t) ks @ ''</'' @ t @ ''>'')"
| "serializeNodes raw [] = []"
| "serializeNodes raw (Text s # ks) = (if raw then s else escapeText s) @ serializeNodes raw ks"
| "serializeNodes raw (Elem e # ks) = outerHTML e @ serializeNodes raw ks"

definition innerHTML :: "element \<Rightarrow> string" where
  "innerHTML e =
     (if List.member voidElements (tagName e) then []
      else serializeNodes (List.member rawTextElements (tagName e)) (childNodes e))"

definition getAttribute :: "element \<Rightarrow> string \<Rightarrow> string option" where
  "getAttribute e k = map_of (attrs e) k"

fun splitTokens :: "string \<Rightarrow> string \<Rightarrow> string list" where
  \<comment> \<open>the white-space separated tokens of an attribute value; the first argument is the
      token being read\<close>
  "splitTokens cur [] = (if cur = [] then [] else [cur])"
| "splitTokens cur (c # cs) =
     (if c = CHR 0x09 \<or> c = CHR 0x0A \<or> c = CHR 0x0C \<or> c = CHR 0x0D \<or> c = CHR 0x20
      then (if cur = [] then splitTokens [] cs else cur # splitTokens [] cs)
      else splitTokens (cur @ [c]) cs)"

definition classList :: "element \<Rightarrow> string list" where
  "classList e = (case getAttribute e ''class'' of None \<Rightarrow> [] | Some v \<Rightarrow> splitTokens [] v)"

definition containerClass :: string where
  "containerClass = ''think-inside-box-container''"

definition markerClass :: string where
  "markerClass = ''think-inside-box-marker''"

definition contentClass :: string where
  "contentClass = ''think-inside-box-content''"

definition isStyledContainer :: "element \<Rightarrow> bool" where
  \<comment> \<open>the element matches \<open>.think-inside-box-container\<close>\<close>
  "isStyledContainer e = List.member (classList e) containerClass"

text \<open>
  The page state: the children of the document node, the roots of the subtrees that
  were removed from the document and are still referenced, and the number the next
  created element gets.
\<close>

record dom =
  document :: "node list"
  detached :: "node list"
  nextId :: nat

fun locate_in :: "nat \<Rightarrow> element list \<Rightarrow> node list \<Rightarrow> (element list \<times> element \<times> node list) option" where
  \<comment> \<open>finds the element numbered \<open>i\<close> below a child list: its ancestors (the parent first),
      the element, and the siblings after it\<close>
  "locate_in i anc [] = None"
| "locate_in i anc (Text s # ks) = locate_in i anc ks"
| "locate_in i anc (Elem (Element j t a cs) # ks) =
     (if j = i then Some (anc, Element j t a cs, ks)
      else (case locate_in i (Element j t a cs # anc) cs of
              Some p \<Rightarrow> Some p
            | None \<Rightarrow> locate_in i anc ks))"

fun locate_detached :: "nat \<Rightarrow> node list \<Rightarrow> (element list \<times> element \<times> node list) option" where
  \<comment> \<open>the same below the detached roots; a root has no parent and no sibling\<close>
  "locate_detached i [] = None"
| "locate_detached i (Text s # rs) = locate_detached i rs"
| "locate_detached i (Elem r # rs) =
     (if nid r = i then Some ([], r, [])
      else (case locate_in i [r] (childNodes r) of
              Some p \<Rightarrow> Some p
            | None \<Rightarrow> locate_detached i rs))"

datatype parent = DocumentNode | ElementNode element

definition contains :: "dom \<Rightarrow> element \<Rightarrow> bool" where
  \<comment> \<open>\<open>document.contains(e)\<close>\<close>
  "contains d e = (locate_in (nid e) [] (document d) \<noteq> None)"

definition parentNode :: "dom \<Rightarrow> element \<Rightarrow> parent option" where
  \<comment> \<open>\<open>e.parentNode\<close>; \<open>None\<close> is \<open>null\<close>\<close>
  "parentNode d e =
     (case locate_in (nid e) [] (document d) of
        Some (anc, _, _) \<Rightarrow> (case anc of [] \<Rightarrow> Some DocumentNode | p # _ \<Rightarrow> Some (ElementNode p))
      | None \<Rightarrow>
          (case locate_detached (nid e) (detached d) of
             Some (p # _, _, _) \<Rightarrow> Some (ElementNode p)
           | _ \<Rightarrow> None))"

definition nextSibling :: "dom \<Rightarrow> element \<Rightarrow> node option" where
  "nextSibling d e =
     (case locate_in (nid e) [] (document d) of
        Some (_, _, nxt) \<Rightarrow> (case nxt of [] \<Rightarrow> None | n # _ \<Rightarrow> Some n)
      | None \<Rightarrow>
          (case locate_detached (nid e) (detached d) of
             Some (_, _, n # _) \<Rightarrow> Some n
           | _ \<Rightarrow> None))"

definition ancestors :: "dom \<Rightarrow> element \<Rightarrow> element list" where
  "ancestors d e =
     (case locate_in (nid e) [] (document d) of
        Some (anc, _, _) \<Rightarrow> anc
      | None \<Rightarrow>
          (case locate_detached (nid e) (detached d) of
             Some (anc, _, _) \<Rightarrow> anc
           | None \<Rightarrow> []))"

definition closest :: "dom \<Rightarrow> element \<Rightarrow> (element \<Rightarrow> bool) \<Rightarrow> element option" where
  \<comment> \<open>\<open>e.closest(selector)\<close>: the element itself or its nearest ancestor element that
      matches\<close>
  "closest d e sel = find sel (e # ancestors d e)"

fun elementsIn :: "node list \<Rightarrow> element list" where
  \<comment> \<open>the elements below a child list, in document order\<close>
  "elementsIn [] = []"
| "elementsIn (Text s # ks) = elementsIn ks"
| "elementsIn (Elem (Element j t a cs) # ks) = Element j t a cs # elementsIn cs @ elementsIn ks"

definition isVirtuosoList :: "element \<Rightarrow> bool" where
  \<comment> \<open>the selector \<open>[data-testid="virtuoso-item-list"]\<close>\<close>
  "isVirtuosoList e = (getAttribute e ''data-testid'' = Some ''virtuoso-item-list'')"

definition isCandidate :: "element \<Rightarrow> bool" where
  \<comment> \<open>the selector \<open>div[style*="font-size: 1rem"]\<close>\<close>
  "isCandidate e =
     (tagName e = ''div'' \<and>
      (case getAttribute e ''style'' of None \<Rightarrow> False | Some v \<Rightarrow> includesStr v ''font-size: 1rem''))"

section \<open>The detector\<close>

text \<open>
  The detector reads the page and never changes it, so an element is, while a scan
  runs, what its handle shows. The state of the detector is the set of fingerprints of
  the ranges that were marked processed; \<open>isProcessed\<close> may remove one, and returns the
  new state with its answer.
\<close>

record block_range =
  startElement :: element
  elements :: "element list"
  endElement :: "element option"
  processed :: bool

record detector =
  processedBlocks :: "string set"
  debugMode :: bool

definition startMarker :: string where
  "startMarker = ''&lt;think&gt;''"

definition endMarker :: string where
  "endMarker = ''&lt;/think&gt;''"

definition decodeMarker :: "string \<Rightarrow> string" where
  \<comment> \<open>\<open>marker.replace(/&lt;/g, '<').replace(/&gt;/g, '>')\<close>\<close>
  "decodeMarker m = replace_all (replace_all m ''&lt;'' ''<'') ''&gt;'' ''>''"

definition isStartMarker :: "element \<Rightarrow> bool" where
  \<comment> \<open>the two start tests of \<open>processElements\<close>: exact text, or markup in entity form\<close>
  "isStartMarker element =
     (trim (textContent element) = decodeMarker startMarker \<or>
      trim (innerHTML element) = startMarker)"

definition isEndMarker :: "element \<Rightarrow> bool" where
  "isEndMarker element =
     (trim (textContent element) = decodeMarker endMarker \<or>
      trim (innerHTML element) = endMarker)"

definition openRange :: "element \<Rightarrow> block_range" where
  "openRange element =
     \<lparr>startElement = element, elements = [element], endElement = None, processed = False\<rparr>"

definition closeRange :: "block_range \<Rightarrow> element \<Rightarrow> block_range" where
  "closeRange r element = r\<lparr>elements := elements r @ [element], endElement := Some element\<rparr>"

definition scanElement ::
  "block_range list \<times> block_range option \<Rightarrow> element \<Rightarrow> block_range list \<times> block_range option" where
  \<comment> \<open>one round of the loop of \<open>processElements\<close> on \<open>(ranges, currentRange)\<close>\<close>
  "scanElement acc element =
     (case acc of (ranges, currentRange) \<Rightarrow>
        (case currentRange of
           None \<Rightarrow>
             if trim (textContent element) = decodeMarker startMarker
               then (ranges, Some (openRange element))
             else if trim (innerHTML element) = startMarker
               then (ranges, Some (openRange element))
             else (ranges, None)
         | Some r \<Rightarrow>
             if trim (textContent element) = decodeMarker endMarker
               then (ranges @ [closeRange r element], None)
             else if trim (innerHTML element) = endMarker
               then (ranges @ [closeRange r element], None)
             else (ranges, Some (r\<lparr>elements := elements r @ [element]\<rparr>))))"

definition generateRangeKey :: "block_range \<Rightarrow> string" where
  "generateRangeKey r =
     outerHTML (startElement r) @ ''-'' @
     (case endElement r of None \<Rightarrow> [] | Some e \<Rightarrow> outerHTML e)"

definition nextSiblingIsContainer :: "dom \<Rightarrow> element \<Rightarrow> bool" where
  \<comment> \<open>\<open>nextSibling && nextSibling.classList && nextSibling.classList.contains(...)\<close>; a text
      node has no class list\<close>
  "nextSiblingIsContainer d start =
     (case nextSibling d start of
        None \<Rightarrow> False
      | Some (Text s) \<Rightarrow> False
      | Some (Elem n) \<Rightarrow> isStyledContainer n)"

definition containerFound :: "dom \<Rightarrow> element \<Rightarrow> bool" where
  \<comment> \<open>the search of \<open>isProcessed\<close>: the start element has a parent, and a styled container
      is its next sibling or is reached by \<open>closest\<close>\<close>
  "containerFound d start =
     (parentNode d start \<noteq> None \<and>
      (nextSiblingIsContainer d start \<or> closest d start isStyledContainer \<noteq> None))"

definition isProcessed :: "dom \<Rightarrow> block_range \<Rightarrow> detector \<Rightarrow> bool \<times> detector" where
  "isProcessed d r det =
     (let key = generateRangeKey r in
      if key \<notin> processedBlocks det then (False, det)
      else if containerFound d (startElement r) then (True, det)
      else (False, det\<lparr>processedBlocks := processedBlocks det - {key}\<rparr>))"

definition markAsProcessed :: "block_range \<Rightarrow> detector \<Rightarrow> detector" where
  "markAsProcessed r det = det\<lparr>processedBlocks := insert (generateRangeKey r) (processedBlocks det)\<rparr>"

definition clearProcessedBlocks :: "detector \<Rightarrow> detector" where
  "clearProcessedBlocks det = det\<lparr>processedBlocks := {}\<rparr>"

fun filterUnprocessed :: "dom \<Rightarrow> block_range list \<Rightarrow> detector \<Rightarrow> block_range list \<times> detector" where
  \<comment> \<open>\<open>ranges.filter(range => !this.isProcessed(range))\<close>, the detector threaded through\<close>
  "filterUnprocessed d [] det = ([], det)"
| "filterUnprocessed d (r # rs) det =
     (case isProcessed d r det of (p, det') \<Rightarrow>
        (case filterUnprocessed d rs det' of (out, det'') \<Rightarrow>
           (if p then out else r # out, det'')))"

definition detectRanges :: "element list \<Rightarrow> block_range list" where
  \<comment> \<open>the loop of \<open>processElements\<close>; a range still open at the end is dropped\<close>
  "detectRanges allElements = fst (foldl scanElement ([], None) allElements)"

definition processElements :: "dom \<Rightarrow> detector \<Rightarrow> element list \<Rightarrow> block_range list \<times> detector" where
  "processElements d det allElements = filterUnprocessed d (detectRanges allElements) det"

definition candidateElements :: "dom \<Rightarrow> element list" where
  \<comment> \<open>the elements \<open>scanDocument\<close> hands to \<open>processElements\<close>: the candidates inside the
      virtualised list when the page has one, in the whole document otherwise\<close>
  "candidateElements d =
     (case find isVirtuosoList (elementsIn (document d)) of
        None \<Rightarrow> filter isCandidate (elementsIn (document d))
      | Some virtuosoContainer \<Rightarrow> filter isCandidate (elementsIn (childNodes virtuosoContainer)))"

definition scanDocument :: "dom \<Rightarrow> detector \<Rightarrow> block_range list \<times> detector" where
  \<comment> \<open>\<open>debugLogContent\<close> writes to the console only and is left out\<close>
  "scanDocument d det = processElements d det (candidateElements d)"

definition markAll :: "block_range list \<Rightarrow> detector \<Rightarrow> detector" where
  \<comment> \<open>\<open>ranges.forEach(range => this.detector.markAsProcessed(range))\<close> of the monitor\<close>
  "markAll ranges det = foldl (\<lambda>dt r. markAsProcessed r dt) det ranges"

section \<open>The styler\<close>

text \<open>
  The styler changes the page: its functions take the page state and return the new
  one. An element the scripts create gets the next free number. What a DOM method
  throws is a value of type \<open>js_error\<close>, so that the \<open>try\<close> and \<open>catch\<close> of
  \<open>wrapThinkingBlocks\<close> is a case distinction. An element that was removed from its
  parent is kept among the detached roots, where a handle to it, or to an element below
  it, still finds it.
\<close>

record settings =
  enabled :: bool
  theme :: string
  maxHeight :: nat
  fontSize :: nat
  fontFamily :: string
  backgroundColor :: string
  borderColor :: string
  textColor :: string
  markerColor :: string

definition defaultSettings :: settings where
  \<comment> \<open>the settings of the constructor\<close>
  "defaultSettings =
     \<lparr>enabled = True, theme = ''default'', maxHeight = 200, fontSize = 13,
      fontFamily = ''Consolas, monospace'', backgroundColor = ''#313338'',
      borderColor = ''#5b21b6'', textColor = ''#c6a3ff'', markerColor = ''#8e67ff''\<rparr>"

datatype js_error = TypeError | HierarchyRequestError

definition getContrastColor :: "string \<Rightarrow> string" where
  \<comment> \<open>a \<open>NaN\<close> channel makes the brightness \<open>NaN\<close>, and \<open>NaN > 128\<close> is false. The
      division is the one inexact operation of the source; the quotient of an integer by
      1000 is above 128 as a double exactly when it is as a real number\<close>
  "getContrastColor hexColor =
     (let color = replace_first hexColor ''#'' [] in
      case (parseInt16 (substr color 0 2), parseInt16 (substr color 2 2),
            parseInt16 (substr color 4 2)) of
        (Some r, Some g, Some b) \<Rightarrow>
          (let brightness = real_of_int (r * 299 + g * 587 + b * 114) / 1000
           in if brightness > 128 then ''#000000'' else ''#ffffff'')
      | _ \<Rightarrow> ''#ffffff'')"

definition setAttribute :: "string \<Rightarrow> string \<Rightarrow> element \<Rightarrow> element" where
  "setAttribute k v e =
     Element (nid e) (tagName e)
       (if map_of (attrs e) k = None then attrs e @ [(k, v)]
        else map (\<lambda>(k', v'). if k' = k then (k', v) else (k', v')) (attrs e))
       (childNodes e)"

definition setStyle :: "string \<Rightarrow> string \<Rightarrow> element \<Rightarrow> element" where
  \<comment> \<open>\<open>e.style.prop = v\<close>: the declaration is added to the inline style, in assignment
      order; the browser's rewriting of values and of repeated properties is not
      modelled\<close>
  "setStyle prop v e =
     setAttribute ''style''
       ((case getAttribute e ''style'' of None \<Rightarrow> [] | Some s \<Rightarrow> s @ '' '') @ prop @ '': '' @ v @ '';'')
       e"

definition setStyles :: "(string \<times> string) list \<Rightarrow> element \<Rightarrow> element" where
  "setStyles decls e = foldl (\<lambda>el (prop, v). setStyle prop v el) e decls"

definition setTextContent :: "string \<Rightarrow> element \<Rightarrow> element" where
  \<comment> \<open>\<open>e.textContent = s\<close>: the children are replaced by one text node, by none for the
      empty string\<close>
  "setTextContent s e =
     Element (nid e) (tagName e) (attrs e) (if s = [] then [] else [Text s])"

definition appendChild :: "element \<Rightarrow> element \<Rightarrow> element" where
  \<comment> \<open>\<open>parent.appendChild(child)\<close> for a child that was just created\<close>
  "appendChild parent child =
     Element (nid parent) (tagName parent) (attrs parent) (childNodes parent @ [Elem child])"

definition createElement :: "string \<Rightarrow> dom \<Rightarrow> element \<times> dom" where
  "createElement t d = (Element (nextId d) t [] [], d\<lparr>nextId := Suc (nextId d)\<rparr>)"

fun cloneNodes :: "node list \<Rightarrow> nat \<Rightarrow> node list \<times> nat" where
  \<comment> \<open>a copy of a child list in which every element is a new element\<close>
  "cloneNodes [] n = ([], n)"
| "cloneNodes (Text s # ks) n =
     (case cloneNodes ks n of (ks', n') \<Rightarrow> (Text s # ks', n'))"
| "cloneNodes (Elem (Element j t a cs) # ks) n =
     (case cloneNodes cs (Suc n) of (cs', n1) \<Rightarrow>
        (case cloneNodes ks n1 of (ks', n2) \<Rightarrow> (Elem (Element n t a cs') # ks', n2)))"

definition copyInnerHTML :: "element \<Rightarrow> element \<Rightarrow> dom \<Rightarrow> element \<times> dom" where
  \<comment> \<open>\<open>target.innerHTML = source.innerHTML\<close>: the markup of the source's children is
      parsed again, which gives the target a copy of them\<close>
  "copyInnerHTML target source d =
     (case cloneNodes (childNodes source) (nextId d) of
        (ks, n) \<Rightarrow> (Element (nid target) (tagName target) (attrs target) ks, d\<lparr>nextId := n\<rparr>))"

definition liveElement :: "dom \<Rightarrow> element \<Rightarrow> element" where
  \<comment> \<open>the present state of the element a handle denotes; an element the page state does
      not hold was never changed\<close>
  "liveElement d e =
     (case locate_in (nid e) [] (document d) of
        Some (_, x, _) \<Rightarrow> x
      | None \<Rightarrow>
          (case locate_detached (nid e) (detached d) of
             Some (_, x, _) \<Rightarrow> x
           | None \<Rightarrow> e))"

fun insert_before :: "node \<Rightarrow> nat \<Rightarrow> node list \<Rightarrow> node list" where
  \<comment> \<open>puts the new node in front of the child numbered \<open>i\<close>\<close>
  "insert_before new i [] = []"
| "insert_before new i (Text s # ks) = Text s # insert_before new i ks"
| "insert_before new i (Elem (Element j t a cs) # ks) =
     (if j = i then new # Elem (Element j t a cs) # ks
      else Elem (Element j t a (insert_before new i cs)) # insert_before new i ks)"

fun remove_node :: "nat \<Rightarrow> node list \<Rightarrow> node list" where
  \<comment> \<open>takes the child numbered \<open>i\<close> out of the child list that holds it\<close>
  "remove_node i [] = []"
| "remove_node i (Text s # ks) = Text s # remove_node i ks"
| "remove_node i (Elem (Element j t a cs) # ks) =
     (if j = i then ks
      else Elem (Element j t a (remove_node i cs)) # remove_node i ks)"

fun append_to :: "nat \<Rightarrow> node \<Rightarrow> node list \<Rightarrow> node list" where
  \<comment> \<open>adds a last child to the element numbered \<open>i\<close>\<close>
  "append_to i new [] = []"
| "append_to i new (Text s # ks) = Text s # append_to i new ks"
| "append_to i new (Elem (Element j t a cs) # ks) =
     (if j = i then Elem (Element j t a (cs @ [new])) # ks
      else Elem (Element j t a (append_to i new cs)) # append_to i new ks)"

definition belowRoots :: "(node list \<Rightarrow> node list) \<Rightarrow> node list \<Rightarrow> node list" where
  \<comment> \<open>a change of child lists applied below every detached root\<close>
  "belowRoots f roots =
     map (\<lambda>r. case r of Text s \<Rightarrow> Text s
                | Elem e \<Rightarrow> Elem (Element (nid e) (tagName e) (attrs e) (f (childNodes e)))) roots"

definition insertBefore :: "dom \<Rightarrow> element \<Rightarrow> element \<Rightarrow> js_error + dom" where
  \<comment> \<open>\<open>ref.parentNode.insertBefore(new, ref)\<close>: a \<open>TypeError\<close> when the parent is \<open>null\<close>; the
      document node takes no second element child\<close>
  "insertBefore d new ref =
     (case parentNode d ref of
        None \<Rightarrow> Inl TypeError
      | Some DocumentNode \<Rightarrow> Inl HierarchyRequestError
      | Some (ElementNode p) \<Rightarrow>
          Inr (d\<lparr>document := insert_before (Elem new) (nid ref) (document d),
                 detached := belowRoots (insert_before (Elem new) (nid ref)) (detached d)\<rparr>))"

definition remove :: "dom \<Rightarrow> element \<Rightarrow> dom" where
  \<comment> \<open>\<open>element.remove()\<close>: nothing happens without a parent; otherwise the element leaves
      its parent and stays referenced as a detached root\<close>
  "remove d e =
     (case parentNode d e of
        None \<Rightarrow> d
      | Some p \<Rightarrow>
          d\<lparr>document := remove_node (nid e) (document d),
            detached := belowRoots (remove_node (nid e)) (detached d) @ [Elem (liveElement d e)]\<rparr>)"

definition appendChildIn :: "dom \<Rightarrow> element \<Rightarrow> element \<Rightarrow> dom" where
  \<comment> \<open>\<open>parent.appendChild(child)\<close> for a parent that is part of the page state\<close>
  "appendChildIn d parent child =
     d\<lparr>document := append_to (nid parent) (Elem child) (document d),
       detached := append_to (nid parent) (Elem child) (detached d)\<rparr>"

definition applyThemeStyles :: "settings \<Rightarrow> element \<Rightarrow> element" where
  "applyThemeStyles s container =
     (if theme s = ''dark'' then
        setStyles [(''background'', ''linear-gradient(145deg, #2d3748, #1a202c)''),
                   (''border-color'', ''#4a5568''), (''color'', ''#e2e8f0''),
                   (''border'', ''1px solid #4a5568''),
                   (''scrollbar-color'', ''#4a5568 #2d3748'')] container
      else if theme s = ''minimal'' then
        setStyles [(''background'', ''#ffffff''), (''border-color'', ''#e0e0e0''),
                   (''color'', ''#333333''), (''border'', ''1px solid #e0e0e0''),
                   (''box-shadow'', ''0 2px 8px rgba(0, 0, 0, 0.05)'')] container
      else if theme s = ''custom'' then
        setStyles [(''background'', backgroundColor s), (''border-color'', borderColor s),
                   (''color'', textColor s), (''border'', ''1px solid '' @ borderColor s)] container
      else
        setStyles [(''background'', ''linear-gradient(145deg, #313338, #2d2f32)''),
                   (''border-color'', ''#5b21b6''), (''color'', ''#c6a3ff''),
                   (''border'', ''1px solid #5b21b6''),
                   (''scrollbar-color'', ''#8e67ff #313338'')] container)"

definition applyContainerStyles :: "settings \<Rightarrow> element \<Rightarrow> element" where
  "applyContainerStyles s container =
     applyThemeStyles s
       (setStyles [(''max-height'', show_nat (maxHeight s) @ ''px''),
                   (''font-size'', show_nat (fontSize s) @ ''px''),
                   (''font-family'', fontFamily s),
                   (''overflow-y'', ''auto''), (''overflow-x'', ''hidden''),
                   (''border-radius'', ''12px''), (''margin'', ''16px 0''),
                   (''padding'', ''16px''), (''line-height'', ''1.6''),
                   (''scroll-behavior'', ''smooth''), (''scrollbar-width'', ''thin''),
                   (''box-shadow'', ''0 4px 12px rgba(0, 0, 0, 0.1)''),
                   (''transition'', ''all 0.3s cubic-bezier(0.4, 0, 0.2, 1)''),
                   (''user-select'', ''text'')] container)"

definition applyMarkerStyles :: "settings \<Rightarrow> element \<Rightarrow> element" where
  "applyMarkerStyles s marker =
     (let base = setStyles [(''display'', ''inline-block''), (''padding'', ''2px 6px''),
                            (''border-radius'', ''4px''), (''font-weight'', ''bold''),
                            (''font-size'', ''11px''), (''margin'', ''0 4px''),
                            (''font-family'', ''inherit''), (''border'', ''1px solid'')] marker
      in if theme s = ''dark'' then
           setStyles [(''background-color'', ''#4a5568''), (''color'', ''#cbd5e0''),
                      (''border-color'', ''#5a6578'')] base
         else if theme s = ''minimal'' then
           setStyles [(''background-color'', ''#f5f5f5''), (''color'', ''#666666''),
                      (''border-color'', ''#e0e0e0'')] base
         else if theme s = ''custom'' then
           setStyles [(''background-color'', markerColor s),
                      (''color'', getContrastColor (markerColor s)),
                      (''border-color'', borderColor s)] base
         else
           setStyles [(''background-color'', ''#5b21b6''), (''color'', ''#c6a3ff''),
                      (''border-color'', ''#8e67ff'')] base)"

definition createMarker :: "settings \<Rightarrow> string \<Rightarrow> dom \<Rightarrow> element \<times> dom" where
  "createMarker s text d =
     (case createElement ''span'' d of (marker, d') \<Rightarrow>
        (applyMarkerStyles s (setTextContent text (setAttribute ''class'' markerClass marker)), d'))"

definition processRangeElement ::
  "settings \<Rightarrow> block_range \<Rightarrow> dom \<times> element \<Rightarrow> nat \<times> element \<Rightarrow> dom \<times> element" where
  \<comment> \<open>one round of the \<open>forEach\<close> of \<open>processRangeElements\<close>, on the page and the content
      wrapper; the element is read as it is at that moment\<close>
  "processRangeElement s rng acc ie =
     (case acc of (d, contentWrapper) \<Rightarrow>
      (case ie of (index, element) \<Rightarrow>
        (let text = textContent (liveElement d element);
             filled =
               (if index = 0 \<and> includesStr text ''&lt;think&gt;'' then
                  (case createMarker s ''&lt;think&gt;'' d of (marker, d1) \<Rightarrow>
                    (let remainingText = trim (replace_first text ''&lt;think&gt;'' [])
                     in if remainingText \<noteq> [] then
                          (case createElement ''div'' d1 of (textNode, d2) \<Rightarrow>
                             (d2, appendChild (appendChild contentWrapper marker)
                                    (setTextContent remainingText textNode)))
                        else (d1, appendChild contentWrapper marker)))
                else if int index = int (length (elements rng)) - 1 \<and>
                        includesStr text ''&lt;/think&gt;'' then
                  (let endIndex = indexOf text ''&lt;/think&gt;'';
                       contentText = trim (substring text 0 endIndex);
                       withText =
                         (if contentText \<noteq> [] then
                            (case createElement ''div'' d of (textNode, d1) \<Rightarrow>
                               (d1, appendChild contentWrapper (setTextContent contentText textNode)))
                          else (d, contentWrapper))
                   in (case withText of (d1, cw) \<Rightarrow>
                         (case createMarker s ''&lt;/think&gt;'' d1 of (marker, d2) \<Rightarrow>
                            (d2, appendChild cw marker))))
                else
                  (case createElement ''div'' d of (textNode, d1) \<Rightarrow>
                     (case copyInnerHTML textNode (liveElement d element) d1 of (textNode', d2) \<Rightarrow>
                        (d2, appendChild contentWrapper textNode'))))
         in (case filled of (d', cw') \<Rightarrow> (remove d' element, cw')))))"

definition processRangeElements ::
  "settings \<Rightarrow> block_range \<Rightarrow> dom \<Rightarrow> element \<Rightarrow> dom \<times> element" where
  "processRangeElements s rng d contentWrapper =
     foldl (processRangeElement s rng) (d, contentWrapper)
       (zip [0 ..< length (elements rng)] (elements rng))"

definition wrapSingleRange ::
  "settings \<Rightarrow> nat \<Rightarrow> block_range \<Rightarrow> nat \<Rightarrow> dom \<Rightarrow> (js_error + element option) \<times> dom" where
  \<comment> \<open>\<open>now\<close> is the reading of \<open>Date.now()\<close>. The source function has no \<open>return\<close>
      statement: when it does not throw, its value is \<open>undefined\<close>, here \<open>None\<close>\<close>
  "wrapSingleRange s now rng index d =
     (case createElement ''div'' d of (container0, d1) \<Rightarrow>
        (let container =
               applyContainerStyles s
                 (setAttribute ''id'' (''think-box-'' @ show_nat index @ ''-'' @ show_nat now)
                    (setAttribute ''class'' containerClass container0))
         in (case createElement ''div'' d1 of (wrapper0, d2) \<Rightarrow>
              (let contentWrapper =
                     setStyles [(''padding'', ''8px 12px''), (''box-sizing'', ''border-box'')]
                       (setAttribute ''class'' contentClass wrapper0)
               in (case insertBefore d2 container (startElement rng) of
                     Inl err \<Rightarrow> (Inl err, d2)
                   | Inr d3 \<Rightarrow>
                       (case processRangeElements s rng d3 contentWrapper of
                          (d4, contentWrapper') \<Rightarrow>
                            (Inr None, appendChildIn d4 container contentWrapper')))))))"

record wrap_result =
  containers :: "element list"
  totalNewHeight :: real
  rangeCount :: "nat option"

definition wrapRange ::
  "settings \<Rightarrow> (nat \<Rightarrow> nat) \<Rightarrow> element list \<times> dom \<Rightarrow> nat \<times> block_range \<Rightarrow> element list \<times> dom" where
  \<comment> \<open>one round of the \<open>forEach\<close> of \<open>wrapThinkingBlocks\<close>: an error of
      \<open>wrapSingleRange\<close> is caught and logged, a value that is not \<open>undefined\<close> is pushed.
      The timer callback only logs\<close>
  "wrapRange s clock acc ir =
     (case acc of (conts, d) \<Rightarrow>
      (case ir of (index, rng) \<Rightarrow>
        (case wrapSingleRange s (clock index) rng index d of
           (Inl err, d') \<Rightarrow> (conts, d')
         | (Inr None, d') \<Rightarrow> (conts, d')
         | (Inr (Some container), d') \<Rightarrow> (conts @ [container], d'))))"

definition wrapThinkingBlocks ::
  "settings \<Rightarrow> (nat \<Rightarrow> nat) \<Rightarrow> block_range list \<Rightarrow> dom \<Rightarrow> wrap_result \<times> dom" where
  \<comment> \<open>\<open>clock index\<close> is the reading of \<open>Date.now()\<close> while range \<open>index\<close> is wrapped\<close>
  "wrapThinkingBlocks s clock ranges d =
     (if \<not> enabled s then (\<lparr>containers = [], totalNewHeight = 0, rangeCount = None\<rparr>, d)
      else
        (case foldl (wrapRange s clock) ([], d) (zip [0 ..< length ranges] ranges) of
           (conts, d') \<Rightarrow>
             (\<lparr>containers = conts, totalNewHeight = 0, rangeCount = Some (length ranges)\<rparr>, d')))"

definition styledContainers :: "dom \<Rightarrow> element list" where
  \<comment> \<open>\<open>document.querySelectorAll('.' + this.containerClass)\<close>, as in
      \<open>updateExistingContainers\<close>\<close>
  "styledContainers d = filter isStyledContainer (elementsIn (document d))"

definition markerChips :: "element \<Rightarrow> element list" where
  \<comment> \<open>\<open>container.querySelectorAll('.' + this.markerClass)\<close>\<close>
  "markerChips container =
     filter (\<lambda>e. List.member (classList e) markerClass) (elementsIn (childNodes container))"

definition contentLines :: "element \<Rightarrow> element list" where
  \<comment> \<open>the content lines of a container: the \<open>div\<close> children of its content wrapper\<close>
  "contentLines container =
     concat (map (\<lambda>w. case w of Text s \<Rightarrow> []
                         | Elem e \<Rightarrow> filter (\<lambda>c. tagName c = ''div'')
                                      (concat (map (\<lambda>k. case k of Text s \<Rightarrow> [] | Elem c \<Rightarrow> [c])
                                                 (childNodes e))))
               (childNodes container))"

section \<open>The monitor's scroll correction\<close>

text \<open>
  Numbers are JavaScript doubles in the source and real numbers here; the two agree on
  the sums and differences of integers that the sample passes below compute. What the
  layout engine reports is a parameter: the rendered height and the vertical margins of
  each element, the scroll container's extent, and its scroll position, which the
  restore functions assign.
\<close>

record layout =
  offsetHeight :: "nat \<Rightarrow> real"
  marginTop :: "nat \<Rightarrow> real"
  marginBottom :: "nat \<Rightarrow> real"
  scrollHeight :: real
  clientHeight :: real
  scrollPosition :: real

record scroll_anchor =
  scrollTop :: real
  anchorElement :: "element option"
  anchorOffset :: real

record height_measurements =
  totalOriginalHeight :: real
  rangeHeights :: "real list"

definition measureContentHeights :: "layout \<Rightarrow> block_range list \<Rightarrow> height_measurements" where
  "measureContentHeights lay ranges =
     (let heights =
            map (\<lambda>rng.
                   sum_list (map (\<lambda>element.
                                    if offsetHeight lay (nid element) \<noteq> 0
                                    then offsetHeight lay (nid element) +
                                         (marginTop lay (nid element) + marginBottom lay (nid element))
                                    else 0)
                               (elements rng)))
              ranges
      in \<lparr>totalOriginalHeight = sum_list heights, rangeHeights = heights\<rparr>)"

definition scrollToPosition :: "layout \<Rightarrow> real \<Rightarrow> layout" where
  "scrollToPosition lay target = lay\<lparr>scrollPosition := max 0 target\<rparr>"

definition calculateHeightAdjustmentForAnchor :: "layout \<Rightarrow> scroll_anchor \<Rightarrow> real \<Rightarrow> real" where
  "calculateHeightAdjustmentForAnchor lay anchor totalHeightDifference =
     (if \<bar>totalHeightDifference\<bar> < 5 then 0
      else
        (let scrollRatio = min 1 (scrollTop anchor / max 1 (scrollHeight lay - clientHeight lay));
             adjustmentFactor = 7 / 10 + scrollRatio * (3 / 10)
         in totalHeightDifference * adjustmentFactor))"

definition performAnchorBasedRestore :: "layout \<Rightarrow> scroll_anchor \<Rightarrow> real \<Rightarrow> layout" where
  "performAnchorBasedRestore lay anchor totalHeightDifference =
     (let currentScrollTop = scrollPosition lay;
          desiredScrollTop = scrollTop anchor;
          heightAdjustment = calculateHeightAdjustmentForAnchor lay anchor totalHeightDifference;
          adjustedScrollTop = desiredScrollTop + heightAdjustment
      in if \<bar>adjustedScrollTop - currentScrollTop\<bar> > 5
         then scrollToPosition lay adjustedScrollTop else lay)"

definition performHeightBasedRestore :: "layout \<Rightarrow> scroll_anchor \<Rightarrow> real \<Rightarrow> layout" where
  "performHeightBasedRestore lay anchor totalHeightDifference =
     (let currentScrollTop = scrollPosition lay;
          adjustment = totalHeightDifference * (8 / 10);
          targetScrollTop = max 0 (scrollTop anchor + adjustment)
      in if \<bar>targetScrollTop - currentScrollTop\<bar> > 5
         then scrollToPosition lay targetScrollTop else lay)"

definition fullHeight :: "layout \<Rightarrow> element \<Rightarrow> real" where
  \<comment> \<open>the rendered height of an element with its vertical margins\<close>
  "fullHeight lay container =
     offsetHeight lay (nid container) + marginTop lay (nid container) +
     marginBottom lay (nid container)"

definition heightDifference :: "dom \<Rightarrow> layout \<Rightarrow> height_measurements \<Rightarrow> wrap_result \<Rightarrow> real" where
  \<comment> \<open>the \<open>totalHeightDifference\<close> of \<open>performHeightAdjustedRestore\<close>: it stays 0 when the
      result holds no container\<close>
  "heightDifference d lay heightMeasurements processingResults =
     (if containers processingResults \<noteq> [] then
        sum_list (map (\<lambda>container. if contains d container then fullHeight lay container else 0)
                    (containers processingResults))
        - totalOriginalHeight heightMeasurements
      else 0)"

definition performHeightAdjustedRestore ::
  "dom \<Rightarrow> layout \<Rightarrow> scroll_anchor \<Rightarrow> height_measurements \<Rightarrow> wrap_result \<Rightarrow> layout" where
  "performHeightAdjustedRestore d lay anchor heightMeasurements processingResults =
     (let totalHeightDifference = heightDifference d lay heightMeasurements processingResults
      in case anchorElement anchor of
           None \<Rightarrow> performHeightBasedRestore lay anchor totalHeightDifference
         | Some a \<Rightarrow>
             if contains d a then performAnchorBasedRestore lay anchor totalHeightDifference
             else performHeightBasedRestore lay anchor totalHeightDifference)"

definition liveRange :: "dom \<Rightarrow> block_range \<Rightarrow> block_range" where
  \<comment> \<open>a range whose start and end element are read as they are on the page now\<close>
  "liveRange d r =
     r\<lparr>startElement := liveElement d (startElement r),
       endElement := map_option (liveElement d) (endElement r)\<rparr>"

definition processCurrentContent ::
  "settings \<Rightarrow> (nat \<Rightarrow> nat) \<Rightarrow> scroll_anchor option \<Rightarrow> layout \<Rightarrow> layout \<Rightarrow>
   dom \<times> detector \<Rightarrow> dom \<times> detector \<times> layout" where
  \<comment> \<open>one processing pass. \<open>scrollAnchor\<close> is what \<open>captureScrollAnchor\<close> returns (it reads
      geometry only), \<open>layBefore\<close> what the layout engine reports before the wrapping and
      \<open>layAfter\<close> what it reports when the deferred restore runs\<close>
  "processCurrentContent s clock scrollAnchor layBefore layAfter st =
     (case st of (d, det) \<Rightarrow>
       (case scanDocument d det of (ranges, det1) \<Rightarrow>
          if ranges = [] then (d, det1, layBefore)
          else
            (let heightMeasurements = measureContentHeights layBefore ranges
             in (case wrapThinkingBlocks s clock ranges d of (processingResults, d2) \<Rightarrow>
                  (d2, markAll (map (liveRange d2) ranges) det1,
                   (case scrollAnchor of
                      None \<Rightarrow> layAfter
                    | Some anchor \<Rightarrow>
                        performHeightAdjustedRestore d2 layAfter anchor heightMeasurements
                          processingResults))))))"

section \<open>Sample pages\<close>

text \<open>
  Small pages used to evaluate the functions above: leaf elements with the inline style
  the detector looks for, holding the markers as text.
\<close>

definition sampleLeaf :: "nat \<Rightarrow> string \<Rightarrow> element" where
  \<comment> \<open>the markup \<open><div style="font-size: 1rem">text</div>\<close>\<close>
  "sampleLeaf i s = Element i ''div'' [(''style'', ''font-size: 1rem'')] [Text s]"

definition sampleContainer :: "nat \<Rightarrow> element" where
  "sampleContainer i = Element i ''div'' [(''class'', ''think-inside-box-container'')] []"

definition samplePage :: "node list \<Rightarrow> dom" where
  \<comment> \<open>a document whose body holds the given nodes\<close>
  "samplePage body =
     \<lparr>document = [Elem (Element 0 ''html'' [] [Elem (Element 1 ''body'' [] body)])],
      detached = [], nextId = 100\<rparr>"

definition freshDetector :: detector where
  "freshDetector = \<lparr>processedBlocks = {}, debugMode = False\<rparr>"

definition closedRange :: "element \<Rightarrow> element list \<Rightarrow> element \<Rightarrow> block_range" where
  \<comment> \<open>the range object the scan builds from a start marker, the elements after it and
      the end marker\<close>
  "closedRange s mid e =
     \<lparr>startElement = s, elements = s # mid @ [e], endElement = Some e, processed = False\<rparr>"

definition emptyBlockPage :: dom where
  \<comment> \<open>an empty thinking block: the start marker directly followed by the end marker\<close>
  "emptyBlockPage =
     samplePage [Elem (sampleLeaf 2 ''<think>''), Elem (sampleLeaf 3 ''</think>'')]"

definition emptyBlockRange :: block_range where
  "emptyBlockRange = closedRange (sampleLeaf 2 ''<think>'') [] (sampleLeaf 3 ''</think>'')"

definition blockPage :: dom where
  \<comment> \<open>a thinking block with one line of content, between two other lines\<close>
  "blockPage =
     samplePage [Elem (sampleLeaf 2 ''before''), Elem (sampleLeaf 3 ''<think>''),
                 Elem (sampleLeaf 4 ''step one''), Elem (sampleLeaf 5 ''</think>''),
                 Elem (sampleLeaf 6 ''after'')]"

definition openBlockPage :: dom where
  \<comment> \<open>a start marker that is never closed\<close>
  "openBlockPage =
     samplePage [Elem (sampleLeaf 2 ''before''), Elem (sampleLeaf 3 ''<think>''),
                 Elem (sampleLeaf 4 ''step one'')]"

definition styledPage :: dom where
  \<comment> \<open>two blocks with the same markup, each start marker followed by a styled container\<close>
  "styledPage =
     samplePage [Elem (sampleLeaf 2 ''<think>''), Elem (sampleContainer 3),
                 Elem (sampleLeaf 4 ''</think>''),
                 Elem (sampleLeaf 5 ''<think>''), Elem (sampleContainer 6),
                 Elem (sampleLeaf 7 ''</think>'')]"

definition styledRange1 :: block_range where
  "styledRange1 = closedRange (sampleLeaf 2 ''<think>'') [] (sampleLeaf 4 ''</think>'')"

definition styledRange2 :: block_range where
  "styledRange2 = closedRange (sampleLeaf 5 ''<think>'') [] (sampleLeaf 7 ''</think>'')"

definition markedPage :: dom where
  \<comment> \<open>one block whose start marker is followed by a styled container\<close>
  "markedPage =
     samplePage [Elem (sampleLeaf 2 ''<think>''), Elem (sampleContainer 3),
                 Elem (sampleLeaf 4 ''</think>'')]"

definition blockRange :: block_range where
  \<comment> \<open>the range of \<open>blockPage\<close>\<close>
  "blockRange =
     closedRange (sampleLeaf 3 ''<think>'') [sampleLeaf 4 ''step one''] (sampleLeaf 5 ''</think>'')"

definition entityTextPage :: dom where
  \<comment> \<open>an empty block whose text shows the markers in entity form, that is, whose markup
      escapes them twice\<close>
  "entityTextPage =
     samplePage [Elem (sampleLeaf 2 ''&lt;think&gt;''), Elem (sampleLeaf 3 ''&lt;/think&gt;'')]"

definition entityTextRange :: block_range where
  "entityTextRange =
     closedRange (sampleLeaf 2 ''&lt;think&gt;'') [] (sampleLeaf 3 ''&lt;/think&gt;'')"

definition disabledSettings :: settings where
  "disabledSettings = defaultSettings\<lparr>enabled := False\<rparr>"

definition sampleClock :: "nat \<Rightarrow> nat" where
  "sampleClock index = 1700"

definition sampleLayout :: layout where
  \<comment> \<open>the three elements of \<open>blockRange\<close> render 40px high each, 120px in all; the
      container made for it (it gets the number 100) renders 48px high with margins of
      16px, 80px in all; the scroll container is at 450px\<close>
  "sampleLayout =
     \<lparr>offsetHeight = (\<lambda>i. if i = 3 \<or> i = 4 \<or> i = 5 then 40 else if i = 100 then 48 else 20),
      marginTop = (\<lambda>i. if i = 100 then 16 else 0),
      marginBottom = (\<lambda>i. if i = 100 then 16 else 0),
      scrollHeight = 2000, clientHeight = 600, scrollPosition = 450\<rparr>"

definition survivingAnchor :: scroll_anchor where
  \<comment> \<open>an anchor on the line after the block, captured at 500px\<close>
  "survivingAnchor =
     \<lparr>scrollTop = 500, anchorElement = Some (sampleLeaf 6 ''after''), anchorOffset = 12\<rparr>"

definition removedAnchor :: scroll_anchor where
  \<comment> \<open>an anchor on a line of the block, which the wrapping removes\<close>
  "removedAnchor =
     \<lparr>scrollTop = 500, anchorElement = Some (sampleLeaf 4 ''step one''), anchorOffset = 12\<rparr>"

definition defaultContainerStyle :: string where
  \<comment> \<open>the inline style of a container under the default settings\<close>
  "defaultContainerStyle =
     ''max-height: 200px; font-size: 13px; font-family: Consolas, monospace; '' @
     ''overflow-y: auto; overflow-x: hidden; border-radius: 12px; margin: 16px 0; '' @
     ''padding: 16px; line-height: 1.6; scroll-behavior: smooth; scrollbar-width: thin; '' @
     ''box-shadow: 0 4px 12px rgba(0, 0, 0, 0.1); '' @
     ''transition: all 0.3s cubic-bezier(0.4, 0, 0.2, 1); user-select: text; '' @
     ''background: linear-gradient(145deg, #313338, #2d2f32); border-color: #5b21b6; '' @
     ''color: #c6a3ff; border: 1px solid #5b21b6; scrollbar-color: #8e67ff #313338;''"

definition defaultMarkerStyle :: string where
  \<comment> \<open>the inline style of a marker chip under the default settings\<close>
  "defaultMarkerStyle =
     ''display: inline-block; padding: 2px 6px; border-radius: 4px; font-weight: bold; '' @
     ''font-size: 11px; margin: 0 4px; font-family: inherit; border: 1px solid; '' @
     ''background-color: #5b21b6; color: #c6a3ff; border-color: #8e67ff;''"

definition sampleWrapped :: "node list \<Rightarrow> element" where
  \<comment> \<open>the container the first wrapping on a sample page makes, around the given content\<close>
  "sampleWrapped content =
     Element 100 ''div''
       [(''class'', ''think-inside-box-container''), (''id'', ''think-box-0-1700''),
        (''style'', defaultContainerStyle)]
       [Elem (Element 101 ''div''
          [(''class'', ''think-inside-box-content''),
           (''style'', ''padding: 8px 12px; box-sizing: border-box;'')]
          content)]"

definition sampleChip :: "nat \<Rightarrow> string \<Rightarrow> element" where
  "sampleChip i s =
     Element i ''span'' [(''class'', ''think-inside-box-marker''), (''style'', defaultMarkerStyle)]
       [Text s]"

definition wrappedBlockPage :: dom where
  \<comment> \<open>\<open>blockPage\<close> after its block was wrapped\<close>
  "wrappedBlockPage =
     \<lparr>document =
        [Elem (Element 0 ''html'' []
           [Elem (Element 1 ''body'' []
              [Elem (sampleLeaf 2 ''before''),
               Elem (sampleWrapped
                  [Elem (Element 102 ''div'' [] [Text ''<think>'']),
                   Elem (Element 103 ''div'' [] [Text ''step one'']),
                   Elem (Element 104 ''div'' [] [Text ''</think>''])]),
               Elem (sampleLeaf 6 ''after'')])])],
      detached = [Elem (sampleLeaf 3 ''<think>''), Elem (sampleLeaf 4 ''step one''),
                  Elem (sampleLeaf 5 ''</think>'')],
      nextId = 105\<rparr>"

definition wrappedEmptyBlockPage :: dom where
  \<comment> \<open>\<open>emptyBlockPage\<close> after its block was wrapped\<close>
  "wrappedEmptyBlockPage =
     \<lparr>document =
        [Elem (Element 0 ''html'' []
           [Elem (Element 1 ''body'' []
              [Elem (sampleWrapped
                  [Elem (Element 102 ''div'' [] [Text ''<think>'']),
                   Elem (Element 103 ''div'' [] [Text ''</think>''])])])])],
      detached = [Elem (sampleLeaf 2 ''<think>''), Elem (sampleLeaf 3 ''</think>'')],
      nextId = 104\<rparr>"

definition wrappedEntityTextPage :: dom where
  \<comment> \<open>\<open>entityTextPage\<close> after its block was wrapped\<close>
  "wrappedEntityTextPage =
     \<lparr>document =
        [Elem (Element 0 ''html'' []
           [Elem (Element 1 ''body'' []
              [Elem (sampleWrapped
                  [Elem (sampleChip 102 ''&lt;think&gt;''),
                   Elem (sampleChip 103 ''&lt;/think&gt;'')])])])],
      detached = [Elem (sampleLeaf 2 ''&lt;think&gt;''), Elem (sampleLeaf 3 ''&lt;/think&gt;'')],
      nextId = 104\<rparr>"

definition noContainers :: wrap_result where
  \<comment> \<open>the result object of a wrapping of one range that lists no container\<close>
  "noContainers = \<lparr>containers = [], totalNewHeight = 0, rangeCount = Some 1\<rparr>"

section \<open>Facts about strings and markup\<close>

lemma dropWhile_keeps: "x \<in> set s \<Longrightarrow> \<not> P x \<Longrightarrow> x \<in> set (dropWhile P s)"
  by (induction s) auto

lemma trim_member: "\<not> isWhitespace c \<Longrightarrow> (c \<in> set (trim s)) = (c \<in> set s)"
  unfolding trim_def
  by (metis dropWhile_keeps set_dropWhileD set_rev)

lemma slash_trim: "(CHR ''/'' \<in> set (trim s)) = (CHR ''/'' \<in> set s)"
  by (rule trim_member) (simp add: isWhitespace_def)

lemma lt_trim: "(CHR ''<'' \<in> set (trim s)) = (CHR ''<'' \<in> set s)"
  by (rule trim_member) (simp add: isWhitespace_def)

lemma trim_nonempty: "trim s \<noteq> [] \<Longrightarrow> s \<noteq> []"
  by (auto simp: trim_def)

lemma slash_escapeText: "(CHR ''/'' \<in> set (escapeText s)) = (CHR ''/'' \<in> set s)"
  by (induction s) (auto simp: escapeText_def)

lemma outerHTML_lt: "CHR ''<'' \<in> set (outerHTML e)"
  by (cases e) simp

lemma slash_serializeNodes:
  "CHR ''<'' \<notin> set (serializeNodes raw ks) \<Longrightarrow>
   (CHR ''/'' \<in> set (serializeNodes raw ks)) = (CHR ''/'' \<in> set (textContent_nodes ks))"
proof (induction ks)
  case Nil
  then show ?case by simp
next
  case (Cons k ks)
  then show ?case
    by (cases k) (auto simp: slash_escapeText outerHTML_lt)
qed

lemma slash_innerHTML:
  assumes "CHR ''<'' \<notin> set (innerHTML e)" "innerHTML e \<noteq> []"
  shows "(CHR ''/'' \<in> set (innerHTML e)) = (CHR ''/'' \<in> set (textContent e))"
  using assms by (cases e) (auto simp: innerHTML_def slash_serializeNodes split: if_splits)

lemma decodeMarker_values:
  "decodeMarker startMarker = ''<think>''" "decodeMarker endMarker = ''</think>''"
  by (simp_all add: decodeMarker_def startMarker_def endMarker_def replace_all_def)

text \<open>
  No element is a start marker and an end marker at once: an element whose markup is one
  marker in entity form holds text only, and its text is that marker.
\<close>

lemma start_not_end: "isStartMarker e \<Longrightarrow> \<not> isEndMarker e"
proof
  assume s: "isStartMarker e" and t: "isEndMarker e"
  have noteq: "decodeMarker startMarker \<noteq> decodeMarker endMarker" "startMarker \<noteq> endMarker"
    by (simp_all add: decodeMarker_values) (simp add: startMarker_def endMarker_def)
  from s t noteq have
    "trim (textContent e) = ''<think>'' \<and> trim (innerHTML e) = endMarker \<or>
     trim (innerHTML e) = startMarker \<and> trim (textContent e) = ''</think>''"
    by (auto simp: isStartMarker_def isEndMarker_def decodeMarker_values)
  then consider
    (a) "trim (textContent e) = ''<think>''" "trim (innerHTML e) = ''&lt;/think&gt;''"
  | (b) "trim (innerHTML e) = ''&lt;think&gt;''" "trim (textContent e) = ''</think>''"
    by (auto simp: startMarker_def endMarker_def)
  then show False
  proof cases
    case a
    have "CHR ''<'' \<notin> set (trim (innerHTML e))" "CHR ''/'' \<in> set (trim (innerHTML e))"
      "CHR ''/'' \<notin> set (trim (textContent e))" "trim (innerHTML e) \<noteq> []"
      by (simp_all add: a)
    then have "CHR ''<'' \<notin> set (innerHTML e)" "CHR ''/'' \<in> set (innerHTML e)"
      "CHR ''/'' \<notin> set (textContent e)" "innerHTML e \<noteq> []"
      by (simp_all only: slash_trim lt_trim trim_nonempty not_False_eq_True)
    then show False using slash_innerHTML by blast
  next
    case b
    have "CHR ''<'' \<notin> set (trim (innerHTML e))" "CHR ''/'' \<notin> set (trim (innerHTML e))"
      "CHR ''/'' \<in> set (trim (textContent e))" "trim (innerHTML e) \<noteq> []"
      by (simp_all add: b)
    then have "CHR ''<'' \<notin> set (innerHTML e)" "CHR ''/'' \<notin> set (innerHTML e)"
      "CHR ''/'' \<in> set (textContent e)" "innerHTML e \<noteq> []"
      by (simp_all only: slash_trim lt_trim trim_nonempty not_False_eq_True)
    then show False using slash_innerHTML by blast
  qed
qed

section \<open>The detection loop\<close>

lemma scan_idle:
  "list_all (\<lambda>x. \<not> isStartMarker x) xs \<Longrightarrow> foldl scanElement (rs, None) xs = (rs, None)"
  by (induction xs) (auto simp: scanElement_def isStartMarker_def)

lemma scan_open:
  "list_all (\<lambda>x. \<not> isEndMarker x) xs \<Longrightarrow>
   foldl scanElement (rs, Some r) xs = (rs, Some (r\<lparr>elements := elements r @ xs\<rparr>))"
  by (induction xs arbitrary: r) (auto simp: scanElement_def isEndMarker_def)

lemma scan_start: "isStartMarker s \<Longrightarrow> scanElement (rs, None) s = (rs, Some (openRange s))"
  by (auto simp: scanElement_def isStartMarker_def)

lemma scan_end: "isEndMarker e \<Longrightarrow> scanElement (rs, Some r) e = (rs @ [closeRange r e], None)"
  by (auto simp: scanElement_def isEndMarker_def)

lemma detect_pair:
  assumes "list_all (\<lambda>x. \<not> isStartMarker x) pre" "isStartMarker s"
    "list_all (\<lambda>x. \<not> isEndMarker x) mid" "isEndMarker e"
    "list_all (\<lambda>x. \<not> isStartMarker x) post"
  shows "detectRanges (pre @ [s] @ mid @ [e] @ post) = [closedRange s mid e]"
  using assms
  by (simp add: detectRanges_def scan_idle scan_start scan_open scan_end openRange_def
      closeRange_def closedRange_def)

lemma scan_keeps_ranges:
  "list_all (\<lambda>x. \<not> isEndMarker x) xs \<Longrightarrow> fst (foldl scanElement (rs, cur) xs) = rs"
proof (induction xs arbitrary: cur)
  case Nil
  then show ?case by simp
next
  case (Cons x xs)
  then show ?case by (cases cur) (auto simp: scanElement_def isEndMarker_def)
qed

lemma detect_unterminated:
  assumes "list_all (\<lambda>x. \<not> isEndMarker x) rest"
  shows "detectRanges (pre @ rest) = detectRanges pre"
proof -
  obtain rs cur where p: "foldl scanElement ([], None) pre = (rs, cur)"
    by (cases "foldl scanElement ([], None) pre")
  show ?thesis
    using assms by (simp add: detectRanges_def p scan_keeps_ranges)
qed

text \<open>Every range the loop emits is made of elements of the scanned list.\<close>

lemma scan_elements_invariant:
  assumes "\<forall>r\<in>set rs. set (elements r) \<subseteq> A" "\<forall>r. cur = Some r \<longrightarrow> set (elements r) \<subseteq> A"
    "set xs \<subseteq> A"
  shows "\<forall>r\<in>set (fst (foldl scanElement (rs, cur) xs)). set (elements r) \<subseteq> A"
  using assms
proof (induction xs arbitrary: rs cur)
  case Nil
  then show ?case by simp
next
  case (Cons x xs)
  obtain rs' cur' where step: "scanElement (rs, cur) x = (rs', cur')"
    by (cases "scanElement (rs, cur) x")
  have "\<forall>r\<in>set rs'. set (elements r) \<subseteq> A" "\<forall>r. cur' = Some r \<longrightarrow> set (elements r) \<subseteq> A"
    using step Cons.prems
    by (auto simp: scanElement_def openRange_def closeRange_def split: option.splits if_splits;
        blast)+
  with Cons.IH[of rs' cur'] Cons.prems(3) show ?case
    by (simp add: step)
qed

lemma detect_elements: "r \<in> set (detectRanges xs) \<Longrightarrow> set (elements r) \<subseteq> set xs"
  using scan_elements_invariant[of "[]" "set xs" None xs]
  by (auto simp: detectRanges_def)

section \<open>The processed set\<close>

lemma isProcessed_found:
  "fst (isProcessed d r det) \<Longrightarrow> containerFound d (startElement r)"
  by (auto simp: isProcessed_def Let_def split: if_splits)

lemma isProcessed_shrinks:
  "processedBlocks (snd (isProcessed d r det)) \<subseteq> processedBlocks det"
  by (auto simp: isProcessed_def Let_def)

lemma filterUnprocessed_subset:
  "set (fst (filterUnprocessed d rs det)) \<subseteq> set rs"
proof (induction rs arbitrary: det)
  case Nil
  then show ?case by simp
next
  case (Cons r rs)
  obtain p det' where ip: "isProcessed d r det = (p, det')"
    by (cases "isProcessed d r det")
  obtain out det'' where fu: "filterUnprocessed d rs det' = (out, det'')"
    by (cases "filterUnprocessed d rs det'")
  from Cons.IH[of det'] fu have "set out \<subseteq> set rs" by simp
  then show ?case by (auto simp: ip fu)
qed

lemma filterUnprocessed_shrinks:
  "processedBlocks (snd (filterUnprocessed d rs det)) \<subseteq> processedBlocks det"
proof (induction rs arbitrary: det)
  case Nil
  then show ?case by simp
next
  case (Cons r rs)
  obtain p det' where ip: "isProcessed d r det = (p, det')"
    by (cases "isProcessed d r det")
  from isProcessed_shrinks[of d r det] ip
  have "processedBlocks det' \<subseteq> processedBlocks det" by simp
  with Cons.IH[of det'] show ?case
    by (auto simp: ip split: prod.splits)
qed

lemma filterUnprocessed_dropped:
  "r \<in> set rs \<Longrightarrow> r \<notin> set (fst (filterUnprocessed d rs det)) \<Longrightarrow>
   containerFound d (startElement r)"
proof (induction rs arbitrary: det)
  case Nil
  then show ?case by simp
next
  case (Cons x xs)
  obtain p det' where ip: "isProcessed d x det = (p, det')"
    by (cases "isProcessed d x det")
  obtain out det'' where fu: "filterUnprocessed d xs det' = (out, det'')"
    by (cases "filterUnprocessed d xs det'")
  show ?case
  proof (cases "r = x \<and> p")
    case True
    with ip isProcessed_found[of d x det] show ?thesis by simp
  next
    case False
    with Cons.prems ip fu have "r \<in> set xs" "r \<notin> set (fst (filterUnprocessed d xs det'))"
      by (auto split: if_splits)
    then show ?thesis by (rule Cons.IH)
  qed
qed

lemma filterUnprocessed_all_found:
  "list_all (\<lambda>r. containerFound d (startElement r)) rs \<Longrightarrow>
   filterUnprocessed d rs det =
     (filter (\<lambda>r. generateRangeKey r \<notin> processedBlocks det) rs, det)"
  by (induction rs) (auto simp: isProcessed_def Let_def)

lemma markAll_keys:
  "processedBlocks (markAll rs det) = processedBlocks det \<union> generateRangeKey ` set rs"
  by (induction rs arbitrary: det) (auto simp: markAll_def markAsProcessed_def)

section \<open>Claims about the detector\<close>

text \<open>
  C3, as amended. When the candidate elements of the page hold exactly one well-formed
  marker pair (no start marker before the pair or after it, no end marker between the
  two markers), a scan finds exactly one range, whose elements are the start marker,
  every candidate between the markers and the end marker, in document order. The scan
  returns that range unless it counts as processed already (its fingerprint is in the
  processed set and a styled container is found at its start element); then the scan
  returns no range.
\<close>

theorem scan_single_pair:
  assumes "candidateElements d = pre @ [s] @ mid @ [e] @ post"
    and "list_all (\<lambda>x. \<not> isStartMarker x) pre"
    and "isStartMarker s"
    and "list_all (\<lambda>x. \<not> isEndMarker x) mid"
    and "isEndMarker e"
    and "list_all (\<lambda>x. \<not> isStartMarker x) post"
  shows "fst (scanDocument d det) =
           (if fst (isProcessed d (closedRange s mid e) det) then [] else [closedRange s mid e])"
proof -
  have "detectRanges (candidateElements d) = [closedRange s mid e]"
    unfolding assms(1) using assms(2-6) by (rule detect_pair)
  then show ?thesis
    by (simp add: scanDocument_def processElements_def split: prod.splits)
qed

theorem scan_single_pair_witness:
  "candidateElements blockPage =
     [sampleLeaf 2 ''before''] @ [sampleLeaf 3 ''<think>''] @ [sampleLeaf 4 ''step one''] @
     [sampleLeaf 5 ''</think>''] @ [sampleLeaf 6 ''after''] \<and>
   list_all (\<lambda>x. \<not> isStartMarker x) [sampleLeaf 2 ''before''] \<and>
   isStartMarker (sampleLeaf 3 ''<think>'') \<and>
   list_all (\<lambda>x. \<not> isEndMarker x) [sampleLeaf 4 ''step one''] \<and>
   isEndMarker (sampleLeaf 5 ''</think>'') \<and>
   list_all (\<lambda>x. \<not> isStartMarker x) [sampleLeaf 6 ''after''] \<and>
   fst (scanDocument blockPage freshDetector) =
     [closedRange (sampleLeaf 3 ''<think>'') [sampleLeaf 4 ''step one'']
        (sampleLeaf 5 ''</think>'')]"
proof -
  have h1: "candidateElements blockPage =
     [sampleLeaf 2 ''before''] @ [sampleLeaf 3 ''<think>''] @ [sampleLeaf 4 ''step one''] @
     [sampleLeaf 5 ''</think>''] @ [sampleLeaf 6 ''after'']"
    by code_simp
  have h2: "list_all (\<lambda>x. \<not> isStartMarker x) [sampleLeaf 2 ''before'']" by code_simp
  have h3: "isStartMarker (sampleLeaf 3 ''<think>'')" by code_simp
  have h4: "list_all (\<lambda>x. \<not> isEndMarker x) [sampleLeaf 4 ''step one'']" by code_simp
  have h5: "isEndMarker (sampleLeaf 5 ''</think>'')" by code_simp
  have h6: "list_all (\<lambda>x. \<not> isStartMarker x) [sampleLeaf 6 ''after'']" by code_simp
  have np: "\<not> fst (isProcessed blockPage
      (closedRange (sampleLeaf 3 ''<think>'') [sampleLeaf 4 ''step one'']
        (sampleLeaf 5 ''</think>'')) freshDetector)"
    by code_simp
  from scan_single_pair[OF h1 h2 h3 h4 h5 h6, of freshDetector] np
  have "fst (scanDocument blockPage freshDetector) =
     [closedRange (sampleLeaf 3 ''<think>'') [sampleLeaf 4 ''step one'']
        (sampleLeaf 5 ''</think>'')]"
    by simp
  with h1 h2 h3 h4 h5 h6 show ?thesis by blast
qed

text \<open>
  C3 as stated fails: on a page whose only candidates are one start marker and one end
  marker, with a styled container after the start marker and the pair's fingerprint in
  the processed set, the scan returns no range.
\<close>

theorem scan_single_pair_counterexample:
  "candidateElements markedPage = [sampleLeaf 2 ''<think>'', sampleLeaf 4 ''</think>''] \<and>
   isStartMarker (sampleLeaf 2 ''<think>'') \<and>
   isEndMarker (sampleLeaf 4 ''</think>'') \<and>
   fst (scanDocument markedPage (markAsProcessed styledRange1 freshDetector)) = []"
  by code_simp

text \<open>
  C7. A start marker with no end marker after it among the candidates yields no range:
  the scan returns what it returns on the candidates before that start marker, and
  changes the detector as it does there; every range it returns consists of elements
  before the start marker; when no start marker comes earlier, it returns no range at
  all. The scan never adds a fingerprint to the processed set.
\<close>

theorem unterminated_start_yields_no_range:
  assumes "candidateElements d = pre @ s # rest"
    and "isStartMarker s"
    and "list_all (\<lambda>x. \<not> isEndMarker x) rest"
  shows "scanDocument d det = processElements d det pre \<and>
         list_all (\<lambda>r. set (elements r) \<subseteq> set pre) (fst (scanDocument d det)) \<and>
         (list_all (\<lambda>x. \<not> isStartMarker x) pre \<longrightarrow> fst (scanDocument d det) = []) \<and>
         processedBlocks (snd (scanDocument d det)) \<subseteq> processedBlocks det"
proof -
  have noend: "list_all (\<lambda>x. \<not> isEndMarker x) (s # rest)"
    using assms(2,3) start_not_end by simp
  have det_eq: "detectRanges (candidateElements d) = detectRanges pre"
    unfolding assms(1) using noend by (rule detect_unterminated)
  then have same: "scanDocument d det = processElements d det pre"
    by (simp add: scanDocument_def processElements_def)
  have "\<forall>r\<in>set (fst (processElements d det pre)). set (elements r) \<subseteq> set pre"
    using filterUnprocessed_subset[of d "detectRanges pre" det] detect_elements[of _ pre]
    by (auto simp: processElements_def)
  then have inside: "list_all (\<lambda>r. set (elements r) \<subseteq> set pre) (fst (scanDocument d det))"
    by (simp add: same list_all_iff)
  have none: "list_all (\<lambda>x. \<not> isStartMarker x) pre \<longrightarrow> fst (scanDocument d det) = []"
    by (simp add: same processElements_def detectRanges_def scan_idle)
  have "processedBlocks (snd (scanDocument d det)) \<subseteq> processedBlocks det"
    by (simp add: scanDocument_def processElements_def filterUnprocessed_shrinks)
  with same inside none show ?thesis by blast
qed

theorem unterminated_start_yields_no_range_witness:
  "candidateElements openBlockPage =
     [sampleLeaf 2 ''before''] @ sampleLeaf 3 ''<think>'' # [sampleLeaf 4 ''step one''] \<and>
   isStartMarker (sampleLeaf 3 ''<think>'') \<and>
   list_all (\<lambda>x. \<not> isEndMarker x) [sampleLeaf 4 ''step one''] \<and>
   list_all (\<lambda>x. \<not> isStartMarker x) [sampleLeaf 2 ''before''] \<and>
   fst (scanDocument openBlockPage freshDetector) = []"
proof -
  have h1: "candidateElements openBlockPage =
     [sampleLeaf 2 ''before''] @ sampleLeaf 3 ''<think>'' # [sampleLeaf 4 ''step one'']"
    by code_simp
  have h2: "isStartMarker (sampleLeaf 3 ''<think>'')" by code_simp
  have h3: "list_all (\<lambda>x. \<not> isEndMarker x) [sampleLeaf 4 ''step one'']" by code_simp
  have h4: "list_all (\<lambda>x. \<not> isStartMarker x) [sampleLeaf 2 ''before'']" by code_simp
  from unterminated_start_yields_no_range[OF h1 h2 h3, of freshDetector] h4
  have "fst (scanDocument openBlockPage freshDetector) = []" by blast
  with h1 h2 h3 h4 show ?thesis by blast
qed

text \<open>
  C5. For a range whose fingerprint is in the processed set: when no styled container
  is the next sibling of the start element and none is reached by \<open>closest\<close>,
  \<open>isProcessed\<close> returns false and removes the fingerprint from the processed set, after
  which the range is not processed on any page (it is eligible again); and the
  fingerprint is still in the set after the call only if a styled container was found.
\<close>

theorem isProcessed_evicts_without_container:
  assumes "generateRangeKey r \<in> processedBlocks det"
  shows "(\<not> nextSiblingIsContainer d (startElement r) \<and>
          closest d (startElement r) isStyledContainer = None \<longrightarrow>
            isProcessed d r det =
              (False, det\<lparr>processedBlocks := processedBlocks det - {generateRangeKey r}\<rparr>) \<and>
            \<not> fst (isProcessed d' r (snd (isProcessed d r det)))) \<and>
         (generateRangeKey r \<in> processedBlocks (snd (isProcessed d r det)) \<longrightarrow>
            containerFound d (startElement r))"
  using assms by (auto simp: isProcessed_def containerFound_def Let_def)

theorem isProcessed_evicts_without_container_witness:
  "generateRangeKey emptyBlockRange \<in> processedBlocks (markAsProcessed emptyBlockRange freshDetector) \<and>
   \<not> nextSiblingIsContainer emptyBlockPage (startElement emptyBlockRange) \<and>
   closest emptyBlockPage (startElement emptyBlockRange) isStyledContainer = None \<and>
   isProcessed emptyBlockPage emptyBlockRange (markAsProcessed emptyBlockRange freshDetector) =
     (False, (markAsProcessed emptyBlockRange freshDetector)
        \<lparr>processedBlocks := processedBlocks (markAsProcessed emptyBlockRange freshDetector) -
           {generateRangeKey emptyBlockRange}\<rparr>) \<and>
   generateRangeKey styledRange1 \<in>
     processedBlocks (snd (isProcessed markedPage styledRange1
        (markAsProcessed styledRange1 freshDetector))) \<and>
   containerFound markedPage (startElement styledRange1)"
proof -
  have h1: "generateRangeKey emptyBlockRange \<in>
      processedBlocks (markAsProcessed emptyBlockRange freshDetector)"
    by (simp add: markAsProcessed_def)
  have h2: "\<not> nextSiblingIsContainer emptyBlockPage (startElement emptyBlockRange)"
    by code_simp
  have h3: "closest emptyBlockPage (startElement emptyBlockRange) isStyledContainer = None"
    by code_simp
  have k1: "generateRangeKey styledRange1 \<in>
      processedBlocks (markAsProcessed styledRange1 freshDetector)"
    by (simp add: markAsProcessed_def)
  have k2: "generateRangeKey styledRange1 \<in>
     processedBlocks (snd (isProcessed markedPage styledRange1
        (markAsProcessed styledRange1 freshDetector)))"
    by code_simp
  from isProcessed_evicts_without_container[OF h1, of emptyBlockPage] h2 h3
    isProcessed_evicts_without_container[OF k1, of markedPage] k2 h1
  show ?thesis by blast
qed

text \<open>
  C10. The fingerprint of a range is a function of the markup of its start element and
  of its end element (nothing, when there is no end element): two ranges that agree on
  both have the same fingerprint, and after one of them is marked processed,
  \<open>isProcessed\<close> answers true for the other whenever a styled container is found at the
  other's start element.
\<close>

theorem fingerprint_from_markup_only:
  assumes "outerHTML (startElement r1) = outerHTML (startElement r2)"
    and "(case endElement r1 of None \<Rightarrow> [] | Some e \<Rightarrow> outerHTML e) =
         (case endElement r2 of None \<Rightarrow> [] | Some e \<Rightarrow> outerHTML e)"
  shows "generateRangeKey r1 = generateRangeKey r2 \<and>
         (containerFound d (startElement r2) \<longrightarrow>
            isProcessed d r2 (markAsProcessed r1 det) = (True, markAsProcessed r1 det))"
  using assms by (simp add: generateRangeKey_def isProcessed_def markAsProcessed_def)

theorem fingerprint_from_markup_only_witness:
  "styledRange1 \<noteq> styledRange2 \<and>
   outerHTML (startElement styledRange1) = outerHTML (startElement styledRange2) \<and>
   (case endElement styledRange1 of None \<Rightarrow> [] | Some e \<Rightarrow> outerHTML e) =
   (case endElement styledRange2 of None \<Rightarrow> [] | Some e \<Rightarrow> outerHTML e) \<and>
   containerFound styledPage (startElement styledRange2) \<and>
   generateRangeKey styledRange1 = generateRangeKey styledRange2 \<and>
   isProcessed styledPage styledRange2 (markAsProcessed styledRange1 freshDetector) =
     (True, markAsProcessed styledRange1 freshDetector)"
proof -
  have h0: "styledRange1 \<noteq> styledRange2"
    by (simp add: styledRange1_def styledRange2_def closedRange_def sampleLeaf_def)
  have h1: "outerHTML (startElement styledRange1) = outerHTML (startElement styledRange2)"
    by code_simp
  have h2: "(case endElement styledRange1 of None \<Rightarrow> [] | Some e \<Rightarrow> outerHTML e) =
            (case endElement styledRange2 of None \<Rightarrow> [] | Some e \<Rightarrow> outerHTML e)"
    by code_simp
  have h3: "containerFound styledPage (startElement styledRange2)"
    by code_simp
  from fingerprint_from_markup_only[OF h1 h2, of styledPage freshDetector] h0 h1 h2 h3
  show ?thesis by blast
qed

text \<open>
  C4, as amended. After a scan, and after every range it returned was marked processed,
  a second scan of the unchanged page returns no range provided a styled container is
  found at the start element of every range the first scan returned (as its next
  sibling, or by \<open>closest\<close>).
\<close>

theorem rescan_after_marking:
  assumes "list_all (\<lambda>r. containerFound d (startElement r)) (fst (scanDocument d det))"
  shows "fst (scanDocument d (markAll (fst (scanDocument d det)) (snd (scanDocument d det)))) = []"
proof -
  define U where "U = detectRanges (candidateElements d)"
  have scan: "\<And>dt. scanDocument d dt = filterUnprocessed d U dt"
    by (simp add: scanDocument_def processElements_def U_def)
  have found: "list_all (\<lambda>r. containerFound d (startElement r)) U"
    unfolding list_all_iff
  proof
    fix r assume r: "r \<in> set U"
    show "containerFound d (startElement r)"
    proof (cases "r \<in> set (fst (filterUnprocessed d U det))")
      case True
      with assms show ?thesis by (simp add: scan list_all_iff)
    next
      case False
      with r show ?thesis by (rule filterUnprocessed_dropped)
    qed
  qed
  have first: "filterUnprocessed d U det =
      (filter (\<lambda>r. generateRangeKey r \<notin> processedBlocks det) U, det)"
    using found by (rule filterUnprocessed_all_found)
  define R where "R = filter (\<lambda>r. generateRangeKey r \<notin> processedBlocks det) U"
  have "filterUnprocessed d U (markAll R det) =
      (filter (\<lambda>r. generateRangeKey r \<notin> processedBlocks (markAll R det)) U, markAll R det)"
    using found by (rule filterUnprocessed_all_found)
  moreover have "filter (\<lambda>r. generateRangeKey r \<notin> processedBlocks (markAll R det)) U = []"
    by (auto simp: filter_empty_conv markAll_keys R_def)
  ultimately show ?thesis
    by (simp add: scan first R_def)
qed

theorem rescan_after_marking_witness:
  "fst (scanDocument markedPage freshDetector) = [styledRange1] \<and>
   list_all (\<lambda>r. containerFound markedPage (startElement r))
     (fst (scanDocument markedPage freshDetector)) \<and>
   fst (scanDocument markedPage
     (markAll (fst (scanDocument markedPage freshDetector))
        (snd (scanDocument markedPage freshDetector)))) = []"
proof -
  have h0: "fst (scanDocument markedPage freshDetector) = [styledRange1]"
    by code_simp
  have h1: "list_all (\<lambda>r. containerFound markedPage (startElement r))
     (fst (scanDocument markedPage freshDetector))"
    by code_simp
  from rescan_after_marking[OF h1] h0 h1 show ?thesis by blast
qed

text \<open>
  C4 as stated fails: on a page that holds a marker pair and no styled container, the
  range the first scan returned is returned again by the second scan, although it was
  marked processed and the page did not change.
\<close>

theorem rescan_after_marking_counterexample:
  "fst (scanDocument emptyBlockPage freshDetector) = [emptyBlockRange] \<and>
   fst (scanDocument emptyBlockPage
     (markAll (fst (scanDocument emptyBlockPage freshDetector))
        (snd (scanDocument emptyBlockPage freshDetector)))) = [emptyBlockRange]"
  by code_simp

section \<open>Claims about the styler\<close>

lemma wrapSingleRange_value:
  "fst (wrapSingleRange s now rng index d) \<noteq> Inr (Some c)"
  by (simp add: wrapSingleRange_def Let_def split: prod.splits sum.splits)

lemma wrapRange_containers: "fst (wrapRange s clock (conts, d) ir) = conts"
proof -
  obtain index rng where ir: "ir = (index, rng)" by (cases ir)
  obtain v d' where w: "wrapSingleRange s (clock index) rng index d = (v, d')"
    by (cases "wrapSingleRange s (clock index) rng index d")
  from wrapSingleRange_value[of s "clock index" rng index d] w
  have "\<And>c. v \<noteq> Inr (Some c)" by simp
  then show ?thesis
    by (cases v) (auto simp: wrapRange_def ir w split: option.splits)
qed

lemma wrapRanges_containers: "fst (foldl (wrapRange s clock) (conts, d) irs) = conts"
proof (induction irs arbitrary: d)
  case Nil
  then show ?case by simp
next
  case (Cons ir irs)
  obtain d' where "wrapRange s clock (conts, d) ir = (conts, d')"
    using wrapRange_containers[of s clock conts d ir]
    by (cases "wrapRange s clock (conts, d) ir") simp
  with Cons.IH[of d'] show ?case by simp
qed

lemma wrapThinkingBlocks_containers:
  "containers (fst (wrapThinkingBlocks s clock ranges d)) = []"
proof (cases "enabled s")
  case False
  then show ?thesis by (simp add: wrapThinkingBlocks_def)
next
  case True
  obtain conts d' where
    f: "foldl (wrapRange s clock) ([], d) (zip [0 ..< length ranges] ranges) = (conts, d')"
    by (cases "foldl (wrapRange s clock) ([], d) (zip [0 ..< length ranges] ranges)")
  from wrapRanges_containers[of s clock "[]" d "zip [0 ..< length ranges] ranges"] f
  have "conts = []" by simp
  with True f show ?thesis by (simp add: wrapThinkingBlocks_def)
qed

lemma scan_blockPage: "scanDocument blockPage freshDetector = ([blockRange], freshDetector)"
  by code_simp

lemma wrap_blockPage:
  "wrapThinkingBlocks defaultSettings sampleClock [blockRange] blockPage =
     (noContainers, wrappedBlockPage)"
  by code_simp

text \<open>
  C1 (the code misses it). With styling enabled, wrapping the block of \<open>blockPage\<close>
  gives \<open>wrappedBlockPage\<close>: one styled container was built, it stands where the start
  marker stood, between the line before the block and the line after it, and the three
  elements of the range are out of the document. The container list of the result is
  empty all the same. \<open>wrapSingleRange\<close> never returns the container it made, so the
  list is empty for every input.
\<close>

theorem wrap_result_has_no_container:
  "containers (fst (wrapThinkingBlocks s clock ranges d)) = [] \<and>
   enabled defaultSettings \<and>
   fst (scanDocument blockPage freshDetector) = [blockRange] \<and>
   wrapThinkingBlocks defaultSettings sampleClock [blockRange] blockPage =
     (noContainers, wrappedBlockPage) \<and>
   containers noContainers = [] \<and>
   map nid (styledContainers wrappedBlockPage) = [100] \<and>
   map (contains wrappedBlockPage) (elements blockRange) = [False, False, False]"
proof -
  have "enabled defaultSettings \<and>
   containers noContainers = [] \<and>
   map nid (styledContainers wrappedBlockPage) = [100] \<and>
   map (contains wrappedBlockPage) (elements blockRange) = [False, False, False]"
    by code_simp
  with wrapThinkingBlocks_containers[of s clock ranges d] scan_blockPage wrap_blockPage
  show ?thesis by simp
qed

text \<open>
  The styler's marker tests never fire on a marker the scan accepted: the text of a
  candidate that is a start marker or an end marker holds no \<open>&\<close>, so it does not
  include a marker in entity form.
\<close>

lemma includesStr_member: "includesStr s (c # p) \<Longrightarrow> c \<in> set s"
proof (induction s)
  case Nil
  then show ?case by simp
next
  case (Cons x xs)
  then show ?case by (cases "x = c") auto
qed

lemma amp_trim: "(CHR ''&'' \<in> set (trim s)) = (CHR ''&'' \<in> set s)"
  by (rule trim_member) (simp add: isWhitespace_def)

lemma a_trim: "(CHR ''a'' \<in> set (trim s)) = (CHR ''a'' \<in> set s)"
  by (rule trim_member) (simp add: isWhitespace_def)

lemma amp_escapeText: "CHR ''&'' \<in> set s \<Longrightarrow> CHR ''a'' \<in> set (escapeText s)"
  by (induction s) (auto simp: escapeText_def)

lemma amp_serializeNodes:
  "CHR ''<'' \<notin> set (serializeNodes False ks) \<Longrightarrow> CHR ''&'' \<in> set (textContent_nodes ks) \<Longrightarrow>
   CHR ''a'' \<in> set (serializeNodes False ks)"
proof (induction ks)
  case Nil
  then show ?case by simp
next
  case (Cons k ks)
  then show ?case
    by (cases k) (auto simp: amp_escapeText outerHTML_lt)
qed

lemma amp_innerHTML:
  assumes "tagName e = ''div''" "CHR ''<'' \<notin> set (innerHTML e)" "CHR ''&'' \<in> set (textContent e)"
  shows "CHR ''a'' \<in> set (innerHTML e)"
proof -
  have "\<not> List.member voidElements ''div''" "\<not> List.member rawTextElements ''div''"
    by (simp_all add: voidElements_def rawTextElements_def)
  with assms show ?thesis
    by (cases e) (auto simp: innerHTML_def amp_serializeNodes)
qed

lemma marker_text_has_no_amp:
  assumes "isCandidate e" "isStartMarker e \<or> isEndMarker e"
  shows "CHR ''&'' \<notin> set (textContent e)"
proof
  assume amp: "CHR ''&'' \<in> set (textContent e)"
  have div: "tagName e = ''div''"
    using assms(1) by (simp add: isCandidate_def)
  from assms(2) have
    "(trim (textContent e) = ''<think>'' \<or> trim (textContent e) = ''</think>'') \<or>
     (trim (innerHTML e) = startMarker \<or> trim (innerHTML e) = endMarker)"
    by (auto simp: isStartMarker_def isEndMarker_def decodeMarker_values)
  then consider
    (by_text) "trim (textContent e) = ''<think>'' \<or> trim (textContent e) = ''</think>''"
  | (by_markup) "trim (innerHTML e) = ''&lt;think&gt;'' \<or> trim (innerHTML e) = ''&lt;/think&gt;''"
    by (auto simp: startMarker_def endMarker_def)
  then show False
  proof cases
    case by_text
    then have "CHR ''&'' \<notin> set (trim (textContent e))" by auto
    with amp amp_trim[of "textContent e"] show False by blast
  next
    case by_markup
    then have "CHR ''<'' \<notin> set (trim (innerHTML e))" "CHR ''a'' \<notin> set (trim (innerHTML e))"
      by auto
    with lt_trim[of "innerHTML e"] a_trim[of "innerHTML e"]
    have "CHR ''<'' \<notin> set (innerHTML e)" "CHR ''a'' \<notin> set (innerHTML e)"
      by blast+
    with amp_innerHTML[OF div _ amp] show False by blast
  qed
qed

lemma detected_marker_fails_styler_test:
  assumes "isCandidate e" "isStartMarker e \<or> isEndMarker e"
  shows "\<not> includesStr (textContent e) ''&lt;think&gt;'' \<and>
         \<not> includesStr (textContent e) ''&lt;/think&gt;''"
  using marker_text_has_no_amp[OF assms] includesStr_member[of "textContent e" "CHR ''&''"]
  by auto


text \<open>
  C6 (the code misses it). The empty block of \<open>emptyBlockPage\<close> is detected, and
  wrapping it gives \<open>wrappedEmptyBlockPage\<close>: the container holds no marker chip and
  two content lines, whose texts are the two markers. The styler looks for the markers
  in entity form in the text of the elements, where the detector matched them with
  angle brackets (\<open>detected_marker_fails_styler_test\<close>). A block whose text shows the
  entity form gets two chips and no content line, but the detector does not find it.
\<close>

theorem empty_block_gets_no_marker_chip:
  "fst (scanDocument emptyBlockPage freshDetector) = [emptyBlockRange] \<and>
   wrapThinkingBlocks defaultSettings sampleClock [emptyBlockRange] emptyBlockPage =
     (noContainers, wrappedEmptyBlockPage) \<and>
   map (\<lambda>c. (length (markerChips c), map textContent (contentLines c)))
     (styledContainers wrappedEmptyBlockPage) = [(0, [''<think>'', ''</think>''])] \<and>
   fst (scanDocument entityTextPage freshDetector) = [] \<and>
   wrapThinkingBlocks defaultSettings sampleClock [entityTextRange] entityTextPage =
     (noContainers, wrappedEntityTextPage) \<and>
   map (\<lambda>c. (map textContent (markerChips c), map textContent (contentLines c)))
     (styledContainers wrappedEntityTextPage) = [([''&lt;think&gt;'', ''&lt;/think&gt;''], [])]"
  by code_simp

text \<open>
  C8. With \<open>enabled\<close> false, wrapping any list of ranges leaves the page as it is and
  returns an empty container list.
\<close>

theorem wrap_disabled_changes_nothing:
  assumes "\<not> enabled s"
  shows "snd (wrapThinkingBlocks s clock ranges d) = d \<and>
         containers (fst (wrapThinkingBlocks s clock ranges d)) = []"
  using assms by (simp add: wrapThinkingBlocks_def)

theorem wrap_disabled_changes_nothing_witness:
  "\<not> enabled disabledSettings \<and>
   snd (wrapThinkingBlocks disabledSettings sampleClock [blockRange] blockPage) = blockPage \<and>
   containers (fst (wrapThinkingBlocks disabledSettings sampleClock [blockRange] blockPage)) = []"
proof -
  have h: "\<not> enabled disabledSettings"
    by (simp add: disabledSettings_def)
  from wrap_disabled_changes_nothing[OF h, of sampleClock "[blockRange]" blockPage] h
  show ?thesis by blast
qed

lemma hexDigit_facts:
  assumes "hexDigit c = Some d"
  shows "\<not> isWhitespace c" "c \<noteq> CHR ''-''" "c \<noteq> CHR ''+''" "c \<noteq> CHR ''x''" "c \<noteq> CHR ''X''"
    "c \<noteq> CHR ''#''" "hexDigit c \<noteq> None"
  using assms by (auto simp: hexDigit_def isWhitespace_def Let_def split: if_splits)

lemma parseInt16_two_digits:
  assumes "hexDigit c1 = Some d1" "hexDigit c2 = Some d2"
  shows "parseInt16 [c1, c2] = Some (int (16 * d1 + d2))"
  using assms hexDigit_facts[OF assms(1)] hexDigit_facts[OF assms(2)]
  by (simp add: parseInt16_def Let_def)

text \<open>
  C9. For a colour written as six hexadecimal digits, with or without the leading
  \<open>#\<close>, \<open>getContrastColor\<close> returns black when the brightness
  \<open>0.299 R + 0.587 G + 0.114 B\<close> is above 128 and white otherwise; it returns black for
  \<open>#fefefe\<close> and white for \<open>#010101\<close>.
\<close>

theorem getContrastColor_luminance_threshold:
  assumes "hexDigit c1 = Some d1" "hexDigit c2 = Some d2" "hexDigit c3 = Some d3"
    "hexDigit c4 = Some d4" "hexDigit c5 = Some d5" "hexDigit c6 = Some d6"
  shows "getContrastColor [CHR ''#'', c1, c2, c3, c4, c5, c6] =
           (if 299 / 1000 * real (16 * d1 + d2) + 587 / 1000 * real (16 * d3 + d4) +
               114 / 1000 * real (16 * d5 + d6) > 128
            then ''#000000'' else ''#ffffff'') \<and>
         getContrastColor [c1, c2, c3, c4, c5, c6] =
           getContrastColor [CHR ''#'', c1, c2, c3, c4, c5, c6] \<and>
         getContrastColor ''#fefefe'' = ''#000000'' \<and>
         getContrastColor ''#010101'' = ''#ffffff''"
proof -
  have r: "parseInt16 [c1, c2] = Some (int (16 * d1 + d2))"
    using assms(1,2) by (rule parseInt16_two_digits)
  have g: "parseInt16 [c3, c4] = Some (int (16 * d3 + d4))"
    using assms(3,4) by (rule parseInt16_two_digits)
  have b: "parseInt16 [c5, c6] = Some (int (16 * d5 + d6))"
    using assms(5,6) by (rule parseInt16_two_digits)
  have nohash: "c1 \<noteq> CHR ''#''" "c2 \<noteq> CHR ''#''" "c3 \<noteq> CHR ''#''" "c4 \<noteq> CHR ''#''"
    "c5 \<noteq> CHR ''#''" "c6 \<noteq> CHR ''#''"
    using assms hexDigit_facts(6) by blast+
  have strip: "replace_first [CHR ''#'', c1, c2, c3, c4, c5, c6] ''#'' [] = [c1, c2, c3, c4, c5, c6]"
    by simp
  have keep: "replace_first [c1, c2, c3, c4, c5, c6] ''#'' [] = [c1, c2, c3, c4, c5, c6]"
    using nohash by auto
  have parts: "substr [c1, c2, c3, c4, c5, c6] 0 2 = [c1, c2]"
    "substr [c1, c2, c3, c4, c5, c6] 2 2 = [c3, c4]"
    "substr [c1, c2, c3, c4, c5, c6] 4 2 = [c5, c6]"
    by (simp_all add: substr_def)
  have with_hash: "getContrastColor [CHR ''#'', c1, c2, c3, c4, c5, c6] =
           (if 299 / 1000 * real (16 * d1 + d2) + 587 / 1000 * real (16 * d3 + d4) +
               114 / 1000 * real (16 * d5 + d6) > 128
            then ''#000000'' else ''#ffffff'')"
    unfolding getContrastColor_def strip Let_def parts r g b
    by (simp add: field_simps)
  have without: "getContrastColor [c1, c2, c3, c4, c5, c6] =
           getContrastColor [CHR ''#'', c1, c2, c3, c4, c5, c6]"
    unfolding getContrastColor_def strip keep by simp
  have "getContrastColor ''#fefefe'' = ''#000000''" "getContrastColor ''#010101'' = ''#ffffff''"
    by code_simp+
  with with_hash without show ?thesis by blast
qed

theorem getContrastColor_luminance_threshold_witness:
  "hexDigit CHR ''8'' = Some 8 \<and> hexDigit CHR ''e'' = Some 14 \<and> hexDigit CHR ''6'' = Some 6 \<and>
   hexDigit CHR ''7'' = Some 7 \<and> hexDigit CHR ''f'' = Some 15 \<and>
   getContrastColor ''#8e67ff'' = ''#000000'' \<and>
   getContrastColor ''8e67ff'' = ''#000000''"
proof -
  have h: "hexDigit CHR ''8'' = Some 8" "hexDigit CHR ''e'' = Some 14" "hexDigit CHR ''6'' = Some 6"
    "hexDigit CHR ''7'' = Some 7" "hexDigit CHR ''f'' = Some 15"
    by (simp_all add: hexDigit_def)
  have "299 / 1000 * real (16 * 8 + 14) + 587 / 1000 * real (16 * 6 + 7) +
               114 / 1000 * real (16 * 15 + 15) > (128::real)"
    by simp
  with getContrastColor_luminance_threshold[OF h(1) h(2) h(3) h(4) h(5) h(5)]
  have "getContrastColor ''#8e67ff'' = ''#000000''" "getContrastColor ''8e67ff'' = ''#000000''"
    by simp_all
  with h show ?thesis by blast
qed


section \<open>Claims about the scroll correction\<close>

lemma processCurrentContent_pass:
  assumes "scanDocument d det = (ranges, det1)" "ranges \<noteq> []"
    and "wrapThinkingBlocks s clock ranges d = (processingResults, d2)"
  shows "processCurrentContent s clock (Some anchor) layBefore layAfter (d, det) =
     (d2, markAll (map (liveRange d2) ranges) det1,
      performHeightAdjustedRestore d2 layAfter anchor (measureContentHeights layBefore ranges)
        processingResults)"
  using assms by (simp add: processCurrentContent_def Let_def)

text \<open>
  What the restore functions do with a height difference of \<open>-40\<close>: with a surviving
  anchor captured at a non-negative offset the adjustment lies between \<open>-40\<close> and
  \<open>-28\<close>; the fallback aims at the captured offset less 32, not below 0. A result that
  lists one container of 80px for content of 120px gives that difference.
\<close>

lemma anchor_adjustment_for_shrink:
  assumes "0 \<le> scrollTop anchor"
  shows "- 40 \<le> calculateHeightAdjustmentForAnchor lay anchor (- 40) \<and>
         calculateHeightAdjustmentForAnchor lay anchor (- 40) \<le> - 28"
proof -
  define ratio where
    "ratio = min 1 (scrollTop anchor / max 1 (scrollHeight lay - clientHeight lay))"
  have "0 \<le> scrollTop anchor / max 1 (scrollHeight lay - clientHeight lay)"
    using assms by simp
  then have "0 \<le> ratio" "ratio \<le> 1"
    by (simp_all add: ratio_def)
  then show ?thesis
    by (simp add: calculateHeightAdjustmentForAnchor_def Let_def ratio_def[symmetric])
qed

lemma fallback_target_for_shrink:
  "performHeightBasedRestore lay anchor (- 40) =
     (if \<bar>max 0 (scrollTop anchor - 32) - scrollPosition lay\<bar> > 5
      then lay\<lparr>scrollPosition := max 0 (scrollTop anchor - 32)\<rparr> else lay)"
  by (simp add: performHeightBasedRestore_def scrollToPosition_def Let_def)

lemma heightDifference_one_container:
  assumes "containers processingResults = [c]" "contains d c" "fullHeight lay c = 80"
    and "totalOriginalHeight heightMeasurements = 120"
  shows "heightDifference d lay heightMeasurements processingResults = - 40"
  using assms by (simp add: heightDifference_def)

text \<open>
  C2 (the code misses it). In a processing pass on \<open>blockPage\<close> the elements of the
  range measure 120px and the one new container measures 80px, but the height difference
  the restore computes is 0, not \<open>-40\<close>: the result of the wrapping lists no container.
  The scroll position is set to the captured 500px, reduced by nothing, both with an
  anchor that is still in the document and with one that is gone.
\<close>

theorem pass_applies_no_height_correction:
  "totalOriginalHeight (measureContentHeights sampleLayout [blockRange]) = 120 \<and>
   map (fullHeight sampleLayout) (styledContainers wrappedBlockPage) = [80] \<and>
   heightDifference wrappedBlockPage sampleLayout
     (measureContentHeights sampleLayout [blockRange]) noContainers = 0 \<and>
   scrollTop survivingAnchor = 500 \<and>
   map_option (contains wrappedBlockPage) (anchorElement survivingAnchor) = Some True \<and>
   scrollPosition (snd (snd (processCurrentContent defaultSettings sampleClock
       (Some survivingAnchor) sampleLayout sampleLayout (blockPage, freshDetector)))) = 500 \<and>
   scrollTop removedAnchor = 500 \<and>
   map_option (contains wrappedBlockPage) (anchorElement removedAnchor) = Some False \<and>
   scrollPosition (snd (snd (processCurrentContent defaultSettings sampleClock
       (Some removedAnchor) sampleLayout sampleLayout (blockPage, freshDetector)))) = 500"
proof -
  have ne: "[blockRange] \<noteq> []" by simp
  have facts: "totalOriginalHeight (measureContentHeights sampleLayout [blockRange]) = 120 \<and>
   map (fullHeight sampleLayout) (styledContainers wrappedBlockPage) = [80] \<and>
   heightDifference wrappedBlockPage sampleLayout
     (measureContentHeights sampleLayout [blockRange]) noContainers = 0 \<and>
   scrollTop survivingAnchor = 500 \<and>
   map_option (contains wrappedBlockPage) (anchorElement survivingAnchor) = Some True \<and>
   scrollTop removedAnchor = 500 \<and>
   map_option (contains wrappedBlockPage) (anchorElement removedAnchor) = Some False"
    by code_simp
  have a: "scrollPosition (performHeightAdjustedRestore wrappedBlockPage sampleLayout
      survivingAnchor (measureContentHeights sampleLayout [blockRange]) noContainers) = 500"
    by code_simp
  have b: "scrollPosition (performHeightAdjustedRestore wrappedBlockPage sampleLayout
      removedAnchor (measureContentHeights sampleLayout [blockRange]) noContainers) = 500"
    by code_simp
  from facts a b show ?thesis
    by (simp add: processCurrentContent_pass[OF scan_blockPage ne wrap_blockPage])
qed

end
